theory Spec2Isabelle
  imports Main "HOL-Library.Monad_Syntax" "HOL-Library.FSet"
begin

section \<open>The grammar front-end: GrammarParser.cpp\<close>

text \<open>
  The parser object holds a pointer \<open>position_\<close> into the character range
  \<open>[start, finish)\<close>, the current line, the last lexeme and an error count. It talks to
  two collaborators: the grammar builder (\<open>grammar_\<close>) and the error policy
  (\<open>error_policy_\<close>, possibly null). The model keeps \<open>position_\<close> as the characters
  from \<open>position_\<close> up to \<open>end_\<close>, and each collaborator as the list of calls it has
  received.
\<close>

datatype error_code = LALR_ERROR_SYNTAX | LALR_ERROR_UNTERMINATED_LITERAL

text \<open>A call \<open>lalr_error(line, column, error, message)\<close> on the error policy.\<close>

datatype report = Report int int error_code string

text \<open>
  The calls the parser makes on the grammar builder, one constructor for each member
  function it calls: \<open>grammar\<close>, \<open>whitespace\<close>, \<open>regex\<close>, \<open>production\<close>,
  \<open>end_production\<close>, \<open>error\<close> (here \<open>ErrorSymbol\<close>), \<open>literal\<close>, \<open>identifier\<close>,
  \<open>left\<close>, \<open>right\<close>, \<open>none\<close> (here \<open>LeftAssoc\<close>, \<open>RightAssoc\<close>, \<open>NoneAssoc\<close>),
  \<open>precedence\<close>, \<open>action\<close> and \<open>end_expression\<close>, with the lexeme and the line where
  the call passes them.
\<close>

datatype event =
    Grammar string
  | Whitespace
  | Regex string int
  | Production string int
  | EndProduction
  | ErrorSymbol int
  | Literal string int
  | Identifier string int
  | LeftAssoc int
  | RightAssoc int
  | NoneAssoc int
  | Precedence
  | Action string int
  | EndExpression int

record parser =
  error_policy :: "report list option"
  grammar :: "event list"
  position :: string
  line :: int
  lexeme :: string
  errors :: int

subsection \<open>Character classes of the C locale\<close>

text \<open>
  \<open>isalnum\<close>, \<open>isdigit\<close> and \<open>isspace\<close> of \<open><ctype.h>\<close> in the C locale, on the bytes of
  the input: letters and digits are the ASCII ones, space is the blank and the characters
  9 to 13, and a byte above 127 is in no class.
\<close>

definition code :: "char \<Rightarrow> nat" where
  "code c = of_char c"

definition isdigit :: "char \<Rightarrow> bool" where
  "isdigit c = (48 \<le> code c \<and> code c \<le> 57)"

definition isalpha :: "char \<Rightarrow> bool" where
  "isalpha c = ((65 \<le> code c \<and> code c \<le> 90) \<or> (97 \<le> code c \<and> code c \<le> 122))"

definition isalnum :: "char \<Rightarrow> bool" where
  "isalnum c = (isalpha c \<or> isdigit c)"

definition isspace :: "char \<Rightarrow> bool" where
  "isspace c = (code c = 32 \<or> (9 \<le> code c \<and> code c \<le> 13))"

definition is_newline :: "char \<Rightarrow> bool" where
  "is_newline c = (c = CHR 0x0A \<or> c = CHR 0x0D)"

subsection \<open>Machine integers and C strings\<close>

text \<open>
  \<open>line_\<close> and \<open>errors_\<close> are 32-bit ints. \<open>++\<close> on the largest one overflows, which the
  language leaves undefined; the model wraps around as the two's-complement increment
  does.
\<close>

definition increment :: "int \<Rightarrow> int" where
  "increment n = (if n = 2147483647 then - 2147483648 else n + 1)"

text \<open>
  \<open>lexeme_.c_str()\<close> as the builder reads it: the characters of the lexeme up to the
  first NUL.
\<close>

definition c_str :: "string \<Rightarrow> string" where
  "c_str lx = takeWhile (\<lambda>c. c \<noteq> CHR 0x00) lx"

subsection \<open>Errors\<close>

text \<open>
  \<open>error\<close> counts the error and, when an error policy is installed, reports it. The
  message is the formatted one.
\<close>

definition error :: "int \<Rightarrow> int \<Rightarrow> error_code \<Rightarrow> string \<Rightarrow> parser \<Rightarrow> parser" where
  "error ln column ec message s =
     s\<lparr>errors := increment (errors s),
       error_policy := map_option (\<lambda>log. log @ [Report ln column ec message]) (error_policy s)\<rparr>"

subsection \<open>Keywords\<close>

text \<open>
  The loop of \<open>match_without_skipping_whitespace\<close>: it walks the lexeme and the input
  together while they agree, and returns what is left of both.
\<close>

fun keyword_loop :: "string \<Rightarrow> string \<Rightarrow> string \<times> string" where
  "keyword_loop (k # ks) (c # cs) =
     (if c = k then keyword_loop ks cs else (k # ks, c # cs))"
| "keyword_loop ks cs = (ks, cs)"

definition match_without_skipping_whitespace :: "string \<Rightarrow> parser \<Rightarrow> bool \<times> parser" where
  "match_without_skipping_whitespace kw s =
     (case keyword_loop kw (position s) of
        ([], p) \<Rightarrow> (True, s\<lparr>position := p\<rparr>)
      | (_ # _, p) \<Rightarrow> (False, s))"

subsection \<open>Whitespace and comments\<close>

text \<open>
  The loop of \<open>match_whitespace\<close>, with its local flag \<open>newline\<close>: the flag is cleared at
  the end of every iteration, so every newline character counts one line (\<open>++line_\<close>).
\<close>

fun whitespace_loop :: "string \<Rightarrow> bool \<Rightarrow> int \<Rightarrow> string \<times> int" where
  "whitespace_loop [] newline ln = ([], ln)"
| "whitespace_loop (c # cs) newline ln =
     (if isspace c
      then whitespace_loop cs False
             (if \<not> newline \<and> (c = CHR 0x0A \<or> c = CHR 0x0D) then increment ln else ln)
      else (c # cs, ln))"

definition match_whitespace :: "parser \<Rightarrow> bool \<times> parser" where
  "match_whitespace s =
     (case position s of
        [] \<Rightarrow> (False, s)
      | c # cs \<Rightarrow>
          if isspace c
          then (case whitespace_loop (position s) False (line s) of
                  (p, ln) \<Rightarrow> (True, s\<lparr>position := p, line := ln\<rparr>))
          else (False, s))"

text \<open>The loop of \<open>match_line_comment\<close> with its flag \<open>done\<close>.\<close>

fun line_comment_loop :: "string \<Rightarrow> bool \<Rightarrow> string" where
  "line_comment_loop [] finished = []"
| "line_comment_loop (c # cs) finished =
     (if \<not> finished then line_comment_loop cs (c = CHR 0x0A \<or> c = CHR 0x0D) else c # cs)"

text \<open>After the loop, one more line end (LF, LF CR, CR or CR LF) is taken.\<close>

fun line_comment_end :: "string \<Rightarrow> string" where
  "line_comment_end [] = []"
| "line_comment_end (c # cs) =
     (if c = CHR 0x0A
      then (case cs of [] \<Rightarrow> [] | d # ds \<Rightarrow> if d = CHR 0x0D then ds else d # ds)
      else if c = CHR 0x0D
      then (case cs of [] \<Rightarrow> [] | d # ds \<Rightarrow> if d = CHR 0x0A then ds else d # ds)
      else c # cs)"

definition match_line_comment :: "parser \<Rightarrow> bool \<times> parser" where
  "match_line_comment s =
     (case match_without_skipping_whitespace ''//'' s of
        (True, s1) \<Rightarrow>
          (True, s1\<lparr>position := line_comment_end (line_comment_loop (position s1) False)\<rparr>)
      | (False, s1) \<Rightarrow> (False, s1))"

text \<open>
  The loop of \<open>match_block_comment\<close>. On a star the pointer moves twice; when the star
  is the last character of the input the second move takes the pointer past \<open>end_\<close>,
  the test \<open>position != end_\<close> stays true and the next read is outside the range. The
  model returns \<open>None\<close> there: the behaviour of the program is undefined.
\<close>

fun block_comment_loop :: "string \<Rightarrow> bool \<Rightarrow> string option" where
  "block_comment_loop [] finished = Some []"
| "block_comment_loop (c # cs) finished =
     (if finished then Some (c # cs)
      else if c = CHR ''*''
      then (case cs of
              [] \<Rightarrow> None
            | d # ds \<Rightarrow> block_comment_loop ds (d = CHR ''/''))
      else block_comment_loop cs False)"

definition match_block_comment :: "parser \<Rightarrow> (bool \<times> parser) option" where
  "match_block_comment s =
     (case match_without_skipping_whitespace ''/*'' s of
        (True, s1) \<Rightarrow>
          (case block_comment_loop (position s1) False of
             None \<Rightarrow> None
           | Some p \<Rightarrow> Some (True, s1\<lparr>position := p\<rparr>))
      | (False, s1) \<Rightarrow> Some (False, s1))"

text \<open>What the loops consume: the pointer never moves backwards.\<close>

lemma keyword_loop_matched:
  "keyword_loop kw p = ([], q) \<Longrightarrow> p = kw @ q"
  by (induction kw p rule: keyword_loop.induct) (auto split: if_splits)

lemma keyword_loop_prefix:
  "keyword_loop kw (kw @ q) = ([], q)"
  by (induction kw) auto

lemma match_without_skipping_whitespace_True:
  "match_without_skipping_whitespace kw s = (True, s') \<Longrightarrow>
     position s = kw @ position s' \<and> s' = s\<lparr>position := position s'\<rparr>"
  by (auto simp: match_without_skipping_whitespace_def
      split: prod.splits list.splits dest: keyword_loop_matched)

lemma match_without_skipping_whitespace_False:
  "match_without_skipping_whitespace kw s = (False, s') \<Longrightarrow> s' = s"
  by (auto simp: match_without_skipping_whitespace_def split: prod.splits list.splits)

lemma whitespace_loop_length:
  "length (fst (whitespace_loop p newline ln)) \<le> length p"
  by (induction p newline ln rule: whitespace_loop.induct) auto

lemma match_whitespace_True:
  "fst (match_whitespace s) \<Longrightarrow>
     length (position (snd (match_whitespace s))) < length (position s)"
proof -
  assume a: "fst (match_whitespace s)"
  then obtain c cs where p: "position s = c # cs" and sp: "isspace c"
    by (auto simp: match_whitespace_def split: list.splits if_splits)
  have "\<And>ln. length (fst (whitespace_loop cs False ln)) < Suc (length cs)"
    by (simp add: whitespace_loop_length le_imp_less_Suc)
  with p sp show ?thesis
    by (auto simp: match_whitespace_def split: prod.splits)
      (metis fst_conv)+
qed

lemma match_whitespace_False:
  "\<not> fst (match_whitespace s) \<Longrightarrow> snd (match_whitespace s) = s"
  by (auto simp: match_whitespace_def split: list.splits if_splits prod.splits)

lemma line_comment_loop_length:
  "length (line_comment_loop p finished) \<le> length p"
  by (induction p finished rule: line_comment_loop.induct) auto

lemma line_comment_end_length:
  "length (line_comment_end p) \<le> length p"
  by (cases p) (auto split: list.splits)

lemma match_line_comment_True:
  "fst (match_line_comment s) \<Longrightarrow>
     length (position (snd (match_line_comment s))) < length (position s)"
proof -
  assume a: "fst (match_line_comment s)"
  then obtain s1 where m: "match_without_skipping_whitespace ''//'' s = (True, s1)"
    by (auto simp: match_line_comment_def split: prod.splits bool.splits)
  then have p: "position s = ''//'' @ position s1"
    by (auto dest: match_without_skipping_whitespace_True)
  have "length (line_comment_end (line_comment_loop (position s1) False)) \<le> length (position s1)"
    using line_comment_end_length line_comment_loop_length order_trans by blast
  with m p show ?thesis
    by (simp add: match_line_comment_def)
qed

lemma match_line_comment_False:
  "\<not> fst (match_line_comment s) \<Longrightarrow> snd (match_line_comment s) = s"
  by (auto simp: match_line_comment_def split: prod.splits bool.splits
      dest: match_without_skipping_whitespace_False)

lemma block_comment_loop_length:
  "block_comment_loop p finished = Some q \<Longrightarrow> length q \<le> length p"
  by (induction p finished rule: block_comment_loop.induct)
    (force split: if_splits list.splits)+

lemma match_block_comment_True:
  "match_block_comment s = Some (True, s') \<Longrightarrow> length (position s') < length (position s)"
proof -
  assume a: "match_block_comment s = Some (True, s')"
  then obtain s1 q where m: "match_without_skipping_whitespace ''/*'' s = (True, s1)"
    and l: "block_comment_loop (position s1) False = Some q" and s': "s' = s1\<lparr>position := q\<rparr>"
    by (auto simp: match_block_comment_def split: prod.splits bool.splits option.splits)
  from m have p: "position s = ''/*'' @ position s1"
    by (auto dest: match_without_skipping_whitespace_True)
  from l have "length q \<le> length (position s1)"
    by (rule block_comment_loop_length)
  with p s' show ?thesis by simp
qed

lemma match_block_comment_False:
  "match_block_comment s = Some (False, s') \<Longrightarrow> s' = s"
  by (auto simp: match_block_comment_def split: prod.splits bool.splits option.splits
      dest: match_without_skipping_whitespace_False)

text \<open>
  \<open>match_whitespace_and_comments\<close>: the loop
  \<open>while ( match_whitespace() || match_line_comment() || match_block_comment() )\<close>.
\<close>

function match_whitespace_and_comments :: "parser \<Rightarrow> parser option" where
  "match_whitespace_and_comments s =
     (if fst (match_whitespace s) then match_whitespace_and_comments (snd (match_whitespace s))
      else if fst (match_line_comment (snd (match_whitespace s)))
      then match_whitespace_and_comments (snd (match_line_comment (snd (match_whitespace s))))
      else (case match_block_comment (snd (match_line_comment (snd (match_whitespace s)))) of
              None \<Rightarrow> None
            | Some (matched, s') \<Rightarrow>
                if matched then match_whitespace_and_comments s' else Some s'))"
  by pat_completeness auto
termination
proof (relation "measure (\<lambda>s. length (position s))")
  show "wf (measure (\<lambda>s. length (position s)))" by simp
next
  fix s
  assume "fst (match_whitespace s)"
  then show "(snd (match_whitespace s), s) \<in> measure (\<lambda>s. length (position s))"
    by (simp add: match_whitespace_True)
next
  fix s
  assume "\<not> fst (match_whitespace s)" "fst (match_line_comment (snd (match_whitespace s)))"
  then show "(snd (match_line_comment (snd (match_whitespace s))), s)
      \<in> measure (\<lambda>s. length (position s))"
    by (simp add: match_whitespace_False match_line_comment_True)
next
  fix s x2 x y
  assume "\<not> fst (match_whitespace s)" "\<not> fst (match_line_comment (snd (match_whitespace s)))"
    "match_block_comment (snd (match_line_comment (snd (match_whitespace s)))) = Some x2"
    "(x, y) = x2" "x"
  then show "(y, s) \<in> measure (\<lambda>s. length (position s))"
    by (auto simp: match_whitespace_False match_line_comment_False dest: match_block_comment_True)
qed

declare match_whitespace_and_comments.simps [simp del]

lemma match_whitespace_and_comments_whitespace:
  "fst (match_whitespace s) \<Longrightarrow>
     match_whitespace_and_comments s = match_whitespace_and_comments (snd (match_whitespace s))"
  by (subst match_whitespace_and_comments.simps) simp

lemma match_whitespace_and_comments_line_comment:
  "\<not> fst (match_whitespace s) \<Longrightarrow> fst (match_line_comment s) \<Longrightarrow>
     match_whitespace_and_comments s = match_whitespace_and_comments (snd (match_line_comment s))"
  by (subst match_whitespace_and_comments.simps) (simp add: match_whitespace_False)

lemma match_whitespace_and_comments_block_comment:
  "\<not> fst (match_whitespace s) \<Longrightarrow> \<not> fst (match_line_comment s) \<Longrightarrow>
     match_whitespace_and_comments s =
       (case match_block_comment s of
          None \<Rightarrow> None
        | Some (matched, s') \<Rightarrow> if matched then match_whitespace_and_comments s' else Some s')"
  by (subst match_whitespace_and_comments.simps)
    (simp add: match_whitespace_False match_line_comment_False)

lemma match_whitespace_and_comments_length:
  "match_whitespace_and_comments s = Some s' \<Longrightarrow> length (position s') \<le> length (position s)"
proof (induction s rule: match_whitespace_and_comments.induct)
  case (1 s)
  show ?case
  proof (cases "fst (match_whitespace s)")
    case True
    with "1.prems" have "match_whitespace_and_comments (snd (match_whitespace s)) = Some s'"
      by (simp add: match_whitespace_and_comments_whitespace)
    with True have "length (position s') \<le> length (position (snd (match_whitespace s)))"
      by (rule "1.IH"(1))
    with match_whitespace_True [OF True] show ?thesis by simp
  next
    case ws: False
    show ?thesis
    proof (cases "fst (match_line_comment s)")
      case True
      with ws "1.prems" have "match_whitespace_and_comments (snd (match_line_comment s)) = Some s'"
        by (simp add: match_whitespace_and_comments_line_comment)
      with ws True have "length (position s') \<le> length (position (snd (match_line_comment s)))"
        using "1.IH"(2) by (simp add: match_whitespace_False)
      with match_line_comment_True [OF True] show ?thesis by simp
    next
      case lc: False
      note unfold = match_whitespace_and_comments_block_comment [OF ws lc]
      show ?thesis
      proof (cases "match_block_comment s")
        case None
        with unfold "1.prems" show ?thesis by simp
      next
        case (Some r)
        obtain matched s1 where r: "r = (matched, s1)" by (cases r)
        show ?thesis
        proof (cases matched)
          case True
          with unfold Some r "1.prems" have "match_whitespace_and_comments s1 = Some s'"
            by simp
          with ws lc Some r True have "length (position s') \<le> length (position s1)"
            using "1.IH"(3) [of r matched s1]
            by (simp add: match_whitespace_False match_line_comment_False)
          moreover have "length (position s1) < length (position s)"
            using Some r True by (auto dest: match_block_comment_True)
          ultimately show ?thesis by simp
        next
          case False
          with unfold Some r "1.prems" have "s' = s1" by simp
          moreover have "s1 = s"
            using Some r False by (auto dest: match_block_comment_False)
          ultimately show ?thesis by simp
        qed
      qed
    qed
  qed
qed

subsection \<open>Tokens\<close>

text \<open>\<open>lexeme_.assign( position_, position )\<close>: the characters between two pointers.\<close>

definition between :: "string \<Rightarrow> string \<Rightarrow> string" where
  "between p q = take (length p - length q) p"

definition match :: "string \<Rightarrow> parser \<Rightarrow> (bool \<times> parser) option" where
  "match keyword s =
     do { s1 \<leftarrow> match_whitespace_and_comments s;
          Some (match_without_skipping_whitespace keyword s1) }"

text \<open>The formatted message of \<open>expect\<close>: \<open>expected '%s' not found\<close>.\<close>

definition expected_not_found :: "string \<Rightarrow> string" where
  "expected_not_found lx = ''expected '' @ [CHR 0x27] @ lx @ [CHR 0x27] @ '' not found''"

definition expect :: "string \<Rightarrow> parser \<Rightarrow> (bool \<times> parser) option" where
  "expect lx s =
     do { (matched, s1) \<leftarrow> match lx s;
          if matched then Some (True, s1)
          else Some (False,
                 error (line s1) 0 LALR_ERROR_SYNTAX (expected_not_found lx)
                   (s1\<lparr>position := []\<rparr>)) }"

text \<open>The loop of \<open>match_identifier\<close>.\<close>

fun identifier_loop :: "string \<Rightarrow> string" where
  "identifier_loop [] = []"
| "identifier_loop (c # cs) =
     (if isalnum c \<or> isdigit c \<or> c = CHR ''_'' then identifier_loop cs else c # cs)"

definition match_identifier :: "parser \<Rightarrow> (bool \<times> parser) option" where
  "match_identifier s =
     do { s1 \<leftarrow> match_whitespace_and_comments s;
          case position s1 of
            [] \<Rightarrow> Some (False, s1)
          | c # cs \<Rightarrow>
              if isalnum c \<or> c = CHR ''_''
              then Some (True, s1\<lparr>lexeme := between (position s1) (identifier_loop cs),
                                   position := identifier_loop cs\<rparr>)
              else Some (False, s1) }"

text \<open>The loop of \<open>match_literal\<close> with its flag \<open>escaped\<close>.\<close>

fun literal_loop :: "string \<Rightarrow> bool \<Rightarrow> string" where
  "literal_loop [] escaped = []"
| "literal_loop (c # cs) escaped =
     (if (c \<noteq> CHR 0x27 \<or> escaped) \<and> \<not> is_newline c
      then literal_loop cs (c = CHR 0x5C)
      else c # cs)"

definition match_literal :: "parser \<Rightarrow> (bool \<times> parser) option" where
  "match_literal s =
     do { s0 \<leftarrow> match_whitespace_and_comments s;
          (opened, s1) \<leftarrow> match [CHR 0x27] s0;
          if opened
          then (let p = literal_loop (position s1) False in
                if p = [] \<or> \<not> is_newline (hd p)
                then do { (closed, s2) \<leftarrow>
                            expect [CHR 0x27] (s1\<lparr>lexeme := between (position s1) p, position := p\<rparr>);
                          Some (True, s2) }
                else Some (False,
                       error (line s1) 0 LALR_ERROR_UNTERMINATED_LITERAL ''unterminated literal'' s1))
          else Some (False, s1) }"

text \<open>The loop of \<open>match_regex\<close>: as for a literal, without the test for a newline.\<close>

fun regex_loop :: "string \<Rightarrow> bool \<Rightarrow> string" where
  "regex_loop [] escaped = []"
| "regex_loop (c # cs) escaped =
     (if c \<noteq> CHR 0x22 \<or> escaped then regex_loop cs (c = CHR 0x5C) else c # cs)"

definition match_regex :: "parser \<Rightarrow> (bool \<times> parser) option" where
  "match_regex s =
     do { s0 \<leftarrow> match_whitespace_and_comments s;
          (opened, s1) \<leftarrow> match [CHR 0x22] s0;
          if opened
          then (let p = regex_loop (position s1) False in
                do { (closed, s2) \<leftarrow>
                       expect [CHR 0x22] (s1\<lparr>lexeme := between (position s1) p, position := p\<rparr>);
                     Some (True, s2) })
          else Some (False, s1) }"

definition match_end :: "parser \<Rightarrow> (bool \<times> parser) option" where
  "match_end s =
     do { s1 \<leftarrow> match_whitespace_and_comments s;
          Some (position s1 = [], s1) }"

definition match_error :: "parser \<Rightarrow> (bool \<times> parser) option" where
  "match_error s = match ''error'' s"

text \<open>The tokens never move the pointer backwards, and a matched token moves it.\<close>

lemma position_error [simp]:
  "position (error ln column ec message s) = position s"
  by (simp add: error_def)

lemma match_length:
  assumes "match keyword s = Some (matched, s')"
  shows "length (position s') \<le> length (position s)"
    and "matched \<Longrightarrow> keyword \<noteq> [] \<Longrightarrow> length (position s') < length (position s)"
proof -
  from assms obtain s1 where w: "match_whitespace_and_comments s = Some s1"
    and m: "match_without_skipping_whitespace keyword s1 = (matched, s')"
    by (auto simp: match_def bind_eq_Some_conv)
  from w have l: "length (position s1) \<le> length (position s)"
    by (rule match_whitespace_and_comments_length)
  show "length (position s') \<le> length (position s)"
  proof (cases matched)
    case True
    with m have "position s1 = keyword @ position s'"
      by (auto dest: match_without_skipping_whitespace_True)
    with l show ?thesis by simp
  next
    case False
    with m have "s' = s1" by (auto dest: match_without_skipping_whitespace_False)
    with l show ?thesis by simp
  qed
  show "length (position s') < length (position s)" if "matched" "keyword \<noteq> []"
  proof -
    from m that have "position s1 = keyword @ position s'"
      by (auto dest: match_without_skipping_whitespace_True)
    with l that show ?thesis by (cases keyword) auto
  qed
qed

lemma expect_length:
  assumes "expect lx s = Some (matched, s')"
  shows "length (position s') \<le> length (position s)"
proof -
  from assms obtain b s1 where m: "match lx s = Some (b, s1)"
    and r: "(if b then Some (True, s1)
             else Some (False, error (line s1) 0 LALR_ERROR_SYNTAX (expected_not_found lx)
                    (s1\<lparr>position := []\<rparr>))) = Some (matched, s')"
    by (auto simp: expect_def bind_eq_Some_conv)
  from m have "length (position s1) \<le> length (position s)" by (rule match_length)
  with r show ?thesis by (cases b) auto
qed

lemma identifier_loop_length:
  "length (identifier_loop p) \<le> length p"
  by (induction p) auto

lemma literal_loop_length:
  "length (literal_loop p escaped) \<le> length p"
  by (induction p escaped rule: literal_loop.induct) auto

lemma regex_loop_length:
  "length (regex_loop p escaped) \<le> length p"
  by (induction p escaped rule: regex_loop.induct) auto

lemma match_identifier_length:
  assumes "match_identifier s = Some (matched, s')"
  shows "length (position s') \<le> length (position s)"
    and "matched \<Longrightarrow> length (position s') < length (position s)"
proof -
  from assms obtain s1 where w: "match_whitespace_and_comments s = Some s1"
    and r: "(case position s1 of
            [] \<Rightarrow> Some (False, s1)
          | c # cs \<Rightarrow>
              if isalnum c \<or> c = CHR ''_''
              then Some (True, s1\<lparr>lexeme := between (position s1) (identifier_loop cs),
                                   position := identifier_loop cs\<rparr>)
              else Some (False, s1)) = Some (matched, s')"
    by (auto simp: match_identifier_def bind_eq_Some_conv)
  from w have l: "length (position s1) \<le> length (position s)"
    by (rule match_whitespace_and_comments_length)
  show "length (position s') \<le> length (position s)"
  proof (cases "position s1")
    case Nil
    with r l show ?thesis by simp
  next
    case (Cons c cs)
    have "length (identifier_loop cs) \<le> length cs" by (rule identifier_loop_length)
    with r l Cons show ?thesis by (auto split: if_splits)
  qed
  show "length (position s') < length (position s)" if "matched"
  proof (cases "position s1")
    case Nil
    with r that show ?thesis by simp
  next
    case (Cons c cs)
    have "length (identifier_loop cs) \<le> length cs" by (rule identifier_loop_length)
    with r l Cons that show ?thesis by (auto split: if_splits)
  qed
qed

lemma match_literal_length:
  assumes "match_literal s = Some (matched, s')"
  shows "length (position s') \<le> length (position s)"
    and "matched \<Longrightarrow> length (position s') < length (position s)"
proof -
  from assms obtain s0 opened s1 where w: "match_whitespace_and_comments s = Some s0"
    and m: "match [CHR 0x27] s0 = Some (opened, s1)"
    and r: "(if opened
          then (let p = literal_loop (position s1) False in
                if p = [] \<or> \<not> is_newline (hd p)
                then do { (closed, s2) \<leftarrow>
                            expect [CHR 0x27] (s1\<lparr>lexeme := between (position s1) p, position := p\<rparr>);
                          Some (True, s2) }
                else Some (False,
                       error (line s1) 0 LALR_ERROR_UNTERMINATED_LITERAL ''unterminated literal'' s1))
          else Some (False, s1)) = Some (matched, s')"
    by (auto simp: match_literal_def bind_eq_Some_conv)
  from w have l0: "length (position s0) \<le> length (position s)"
    by (rule match_whitespace_and_comments_length)
  from m have l1: "length (position s1) \<le> length (position s0)" by (rule match_length)
  have l1': "length (position s1) < length (position s0)" if "opened"
    using match_length(2) [OF m] that by simp
  have ll: "length (literal_loop (position s1) False) \<le> length (position s1)"
    by (rule literal_loop_length)
  have e: "length (position s') \<le> length (literal_loop (position s1) False)"
    if "expect [CHR 0x27] (s1\<lparr>lexeme := between (position s1) (literal_loop (position s1) False),
          position := literal_loop (position s1) False\<rparr>) = Some (closed, s')" for closed
    using expect_length [OF that] by simp
  from r l0 l1 ll show "length (position s') \<le> length (position s)"
    by (auto simp: Let_def bind_eq_Some_conv split: if_splits dest!: e)
  from r l0 l1' ll show "length (position s') < length (position s)" if "matched"
    using that by (auto simp: Let_def bind_eq_Some_conv split: if_splits dest!: e)
qed

lemma match_regex_length:
  assumes "match_regex s = Some (matched, s')"
  shows "length (position s') \<le> length (position s)"
    and "matched \<Longrightarrow> length (position s') < length (position s)"
proof -
  from assms obtain s0 opened s1 where w: "match_whitespace_and_comments s = Some s0"
    and m: "match [CHR 0x22] s0 = Some (opened, s1)"
    and r: "(if opened
          then (let p = regex_loop (position s1) False in
                do { (closed, s2) \<leftarrow>
                       expect [CHR 0x22] (s1\<lparr>lexeme := between (position s1) p, position := p\<rparr>);
                     Some (True, s2) })
          else Some (False, s1)) = Some (matched, s')"
    by (auto simp: match_regex_def bind_eq_Some_conv)
  from w have l0: "length (position s0) \<le> length (position s)"
    by (rule match_whitespace_and_comments_length)
  from m have l1: "length (position s1) \<le> length (position s0)" by (rule match_length)
  have l1': "length (position s1) < length (position s0)" if "opened"
    using match_length(2) [OF m] that by simp
  have ll: "length (regex_loop (position s1) False) \<le> length (position s1)"
    by (rule regex_loop_length)
  have e: "length (position s') \<le> length (regex_loop (position s1) False)"
    if "expect [CHR 0x22] (s1\<lparr>lexeme := between (position s1) (regex_loop (position s1) False),
          position := regex_loop (position s1) False\<rparr>) = Some (closed, s')" for closed
    using expect_length [OF that] by simp
  from r l0 l1 ll show "length (position s') \<le> length (position s)"
    by (auto simp: Let_def bind_eq_Some_conv split: if_splits dest!: e)
  from r l0 l1' ll show "length (position s') < length (position s)" if "matched"
    using that by (auto simp: Let_def bind_eq_Some_conv split: if_splits dest!: e)
qed

subsection \<open>Symbols\<close>

text \<open>A call on the grammar builder.\<close>

definition call :: "event \<Rightarrow> parser \<Rightarrow> parser" where
  "call ev s = s\<lparr>grammar := grammar s @ [ev]\<rparr>"

lemma position_call [simp]:
  "position (call ev s) = position s"
  by (simp add: call_def)

definition match_symbol :: "parser \<Rightarrow> (bool \<times> parser) option" where
  "match_symbol s =
     do { (is_error, s1) \<leftarrow> match_error s;
          if is_error then Some (True, call (ErrorSymbol (line s1)) s1)
          else do {
            (is_literal, s2) \<leftarrow> match_literal s1;
            if is_literal then Some (True, call (Literal (c_str (lexeme s2)) (line s2)) s2)
            else do {
              (is_regex, s3) \<leftarrow> match_regex s2;
              if is_regex then Some (True, call (Regex (c_str (lexeme s3)) (line s3)) s3)
              else do {
                (is_identifier, s4) \<leftarrow> match_identifier s3;
                if is_identifier then Some (True, call (Identifier (c_str (lexeme s4)) (line s4)) s4)
                else Some (False, s4) } } } }"

lemma match_symbol_length:
  assumes "match_symbol s = Some (matched, s')"
  shows "length (position s') \<le> length (position s)"
    and "matched \<Longrightarrow> length (position s') < length (position s)"
proof -
  from assms obtain b1 s1 where m1: "match ''error'' s = Some (b1, s1)"
    and r1: "(if b1 then Some (True, call (ErrorSymbol (line s1)) s1)
          else do {
            (is_literal, s2) \<leftarrow> match_literal s1;
            if is_literal then Some (True, call (Literal (c_str (lexeme s2)) (line s2)) s2)
            else do {
              (is_regex, s3) \<leftarrow> match_regex s2;
              if is_regex then Some (True, call (Regex (c_str (lexeme s3)) (line s3)) s3)
              else do {
                (is_identifier, s4) \<leftarrow> match_identifier s3;
                if is_identifier then Some (True, call (Identifier (c_str (lexeme s4)) (line s4)) s4)
                else Some (False, s4) } } }) = Some (matched, s')"
    by (auto simp: match_symbol_def match_error_def bind_eq_Some_conv)
  note e = match_length [OF m1]
  show "length (position s') \<le> length (position s)"
    and "matched \<Longrightarrow> length (position s') < length (position s)"
  proof (atomize (full), cases b1)
    case True
    with r1 e show "length (position s') \<le> length (position s) \<and>
        (matched \<longrightarrow> length (position s') < length (position s))"
      by auto
  next
    case nb1: False
    with r1 obtain b2 s2 where m2: "match_literal s1 = Some (b2, s2)"
      and r2: "(if b2 then Some (True, call (Literal (c_str (lexeme s2)) (line s2)) s2)
            else do {
              (is_regex, s3) \<leftarrow> match_regex s2;
              if is_regex then Some (True, call (Regex (c_str (lexeme s3)) (line s3)) s3)
              else do {
                (is_identifier, s4) \<leftarrow> match_identifier s3;
                if is_identifier then Some (True, call (Identifier (c_str (lexeme s4)) (line s4)) s4)
                else Some (False, s4) } }) = Some (matched, s')"
      by (auto simp: bind_eq_Some_conv)
    note l = match_literal_length [OF m2]
    show "length (position s') \<le> length (position s) \<and>
        (matched \<longrightarrow> length (position s') < length (position s))"
    proof (cases b2)
      case True
      with r2 e(1) l show ?thesis by auto
    next
      case nb2: False
      with r2 obtain b3 s3 where m3: "match_regex s2 = Some (b3, s3)"
        and r3: "(if b3 then Some (True, call (Regex (c_str (lexeme s3)) (line s3)) s3)
              else do {
                (is_identifier, s4) \<leftarrow> match_identifier s3;
                if is_identifier then Some (True, call (Identifier (c_str (lexeme s4)) (line s4)) s4)
                else Some (False, s4) }) = Some (matched, s')"
        by (auto simp: bind_eq_Some_conv)
      note x = match_regex_length [OF m3]
      show ?thesis
      proof (cases b3)
        case True
        with r3 e(1) l(1) x show ?thesis by auto
      next
        case nb3: False
        with r3 obtain b4 s4 where m4: "match_identifier s3 = Some (b4, s4)"
          and r4: "(if b4 then Some (True, call (Identifier (c_str (lexeme s4)) (line s4)) s4)
                else Some (False, s4)) = Some (matched, s')"
          by (auto simp: bind_eq_Some_conv)
        note i = match_identifier_length [OF m4]
        from r4 e(1) l(1) x(1) i show ?thesis by (cases b4) auto
      qed
    qed
  qed
qed

text \<open>\<open>match_symbols\<close>: the loop \<open>while ( match_symbol() )\<close>.\<close>

function match_symbols :: "parser \<Rightarrow> (bool \<times> parser) option" where
  "match_symbols s =
     (case match_symbol s of
        None \<Rightarrow> None
      | Some (matched, s') \<Rightarrow> if matched then match_symbols s' else Some (True, s'))"
  by pat_completeness auto
termination
proof (relation "measure (\<lambda>s. length (position s))")
  show "wf (measure (\<lambda>s. length (position s)))" by simp
next
  fix s r matched s'
  assume "match_symbol s = Some r" "(matched, s') = r" "matched"
  then show "(s', s) \<in> measure (\<lambda>s. length (position s))"
    using match_symbol_length(2) [of s matched s'] by simp
qed

declare match_symbols.simps [simp del]

lemma match_symbols_length:
  "match_symbols s = Some (matched, s') \<Longrightarrow> length (position s') \<le> length (position s)"
proof (induction s rule: match_symbols.induct)
  case (1 s)
  from "1.prems" obtain b s1 where m: "match_symbol s = Some (b, s1)"
    and r: "(if b then match_symbols s1 else Some (True, s1)) = Some (matched, s')"
    by (subst (asm) match_symbols.simps) (auto split: option.splits)
  note l = match_symbol_length [OF m]
  show ?case
  proof (cases b)
    case True
    with r have "match_symbols s1 = Some (matched, s')" by simp
    with m True have "length (position s') \<le> length (position s1)"
      using "1.IH" [of "(b, s1)" b s1] by simp
    with l show ?thesis by simp
  next
    case False
    with r l show ?thesis by simp
  qed
qed

subsection \<open>Statements\<close>

definition match_associativity :: "parser \<Rightarrow> (bool \<times> parser) option" where
  "match_associativity s =
     do { (is_left, s1) \<leftarrow> match ''%left'' s;
          if is_left then Some (True, call (LeftAssoc (line s1)) s1)
          else do {
            (is_right, s2) \<leftarrow> match ''%right'' s1;
            if is_right then Some (True, call (RightAssoc (line s2)) s2)
            else do {
              (is_none, s3) \<leftarrow> match ''%none'' s2;
              if is_none then Some (True, call (NoneAssoc (line s3)) s3)
              else Some (False, s3) } } }"

definition match_associativity_statement :: "parser \<Rightarrow> (bool \<times> parser) option" where
  "match_associativity_statement s =
     do { (matched, s1) \<leftarrow> match_associativity s;
          if matched
          then do { (symbols, s2) \<leftarrow> match_symbols s1;
                    (semicolon, s3) \<leftarrow> expect '';'' s2;
                    Some (True, s3) }
          else Some (False, s1) }"

definition match_whitespace_statement :: "parser \<Rightarrow> (bool \<times> parser) option" where
  "match_whitespace_statement s =
     do { (matched, s1) \<leftarrow> match ''%whitespace'' s;
          if matched
          then do { (is_regex, s2) \<leftarrow> match_regex (call Whitespace s1);
                    (semicolon, s3) \<leftarrow>
                      expect '';'' (if is_regex then call (Regex (c_str (lexeme s2)) (line s2)) s2 else s2);
                    Some (True, s3) }
          else Some (False, s1) }"

definition match_precedence :: "parser \<Rightarrow> (bool \<times> parser) option" where
  "match_precedence s =
     do { (matched, s1) \<leftarrow> match ''%precedence'' s;
          if matched
          then do { (symbol, s2) \<leftarrow> match_symbol (call Precedence s1);
                    Some (True, s2) }
          else Some (False, s1) }"

definition match_action :: "parser \<Rightarrow> (bool \<times> parser) option" where
  "match_action s =
     do { (matched, s1) \<leftarrow> match ''['' s;
          if matched
          then do { (is_identifier, s2) \<leftarrow> match_identifier s1;
                    (bracket, s3) \<leftarrow>
                      expect '']''
                        (if is_identifier then call (Action (c_str (lexeme s2)) (line s2)) s2 else s2);
                    Some (True, s3) }
          else Some (False, call (EndExpression (line s1)) s1) }"

definition match_expression :: "parser \<Rightarrow> (bool \<times> parser) option" where
  "match_expression s =
     do { (symbols, s1) \<leftarrow> match_symbols s;
          (precedence, s2) \<leftarrow> match_precedence s1;
          (action, s3) \<leftarrow> match_action s2;
          Some (True, s3) }"

lemma match_shrinks:
  "match keyword s = Some (matched, s') \<Longrightarrow>
     length (position s') \<le> length (position s) \<and>
     (matched \<and> keyword \<noteq> [] \<longrightarrow> length (position s') < length (position s))"
  using match_length [of keyword s matched s'] by blast

lemma match_identifier_shrinks:
  "match_identifier s = Some (matched, s') \<Longrightarrow>
     length (position s') \<le> length (position s) \<and>
     (matched \<longrightarrow> length (position s') < length (position s))"
  using match_identifier_length [of s matched s'] by blast

lemma match_symbol_shrinks:
  "match_symbol s = Some (matched, s') \<Longrightarrow>
     length (position s') \<le> length (position s) \<and>
     (matched \<longrightarrow> length (position s') < length (position s))"
  using match_symbol_length [of s matched s'] by blast

lemma match_associativity_shrinks:
  "match_associativity s = Some (matched, s') \<Longrightarrow>
     length (position s') \<le> length (position s) \<and>
     (matched \<longrightarrow> length (position s') < length (position s))"
  by (auto simp: match_associativity_def bind_eq_Some_conv split: if_splits
      dest!: match_shrinks)

lemma match_associativity_statement_shrinks:
  "match_associativity_statement s = Some (matched, s') \<Longrightarrow>
     length (position s') \<le> length (position s) \<and>
     (matched \<longrightarrow> length (position s') < length (position s))"
  by (auto simp: match_associativity_statement_def bind_eq_Some_conv split: if_splits
      dest!: match_associativity_shrinks match_symbols_length expect_length)

lemma match_whitespace_statement_shrinks:
  "match_whitespace_statement s = Some (matched, s') \<Longrightarrow>
     length (position s') \<le> length (position s) \<and>
     (matched \<longrightarrow> length (position s') < length (position s))"
  by (auto simp: match_whitespace_statement_def bind_eq_Some_conv split: if_splits
      dest!: match_shrinks match_regex_length(1) expect_length)

lemma match_precedence_length:
  "match_precedence s = Some (matched, s') \<Longrightarrow> length (position s') \<le> length (position s)"
  by (auto simp: match_precedence_def bind_eq_Some_conv split: if_splits
      dest!: match_length(1) match_symbol_length(1))

lemma match_action_length:
  "match_action s = Some (matched, s') \<Longrightarrow> length (position s') \<le> length (position s)"
  by (auto simp: match_action_def bind_eq_Some_conv split: if_splits
      dest!: match_length(1) match_identifier_length(1) expect_length)

lemma match_expression_length:
  "match_expression s = Some (matched, s') \<Longrightarrow> length (position s') \<le> length (position s)"
  by (auto simp: match_expression_def bind_eq_Some_conv
      dest!: match_symbols_length match_precedence_length match_action_length)

text \<open>
  \<open>match_expressions\<close>: one expression, then the loop
  \<open>while ( match("|") && match_expression() )\<close>.
\<close>

function expressions_loop :: "parser \<Rightarrow> parser option" where
  "expressions_loop s =
     (case match ''|'' s of
        None \<Rightarrow> None
      | Some (bar, s1) \<Rightarrow>
          if bar
          then (case match_expression s1 of
                  None \<Rightarrow> None
                | Some (matched, s2) \<Rightarrow> if matched then expressions_loop s2 else Some s2)
          else Some s1)"
  by pat_completeness auto
termination
proof (relation "measure (\<lambda>s. length (position s))")
  show "wf (measure (\<lambda>s. length (position s)))" by simp
next
  fix s r bar s1 r' matched s2
  assume "match ''|'' s = Some r" "(bar, s1) = r" "bar"
    "match_expression s1 = Some r'" "(matched, s2) = r'" "matched"
  then have "length (position s1) < length (position s)"
    and "length (position s2) \<le> length (position s1)"
    using match_length(2) [of "''|''" s bar s1] match_expression_length [of s1 matched s2]
    by auto
  then show "(s2, s) \<in> measure (\<lambda>s. length (position s))" by simp
qed

declare expressions_loop.simps [simp del]

lemma expressions_loop_length:
  "expressions_loop s = Some s' \<Longrightarrow> length (position s') \<le> length (position s)"
proof (induction s rule: expressions_loop.induct)
  case (1 s)
  from "1.prems" obtain bar s1 where m: "match ''|'' s = Some (bar, s1)"
    and r: "(if bar
          then (case match_expression s1 of
                  None \<Rightarrow> None
                | Some (matched, s2) \<Rightarrow> if matched then expressions_loop s2 else Some s2)
          else Some s1) = Some s'"
    by (subst (asm) expressions_loop.simps) (auto split: option.splits)
  note l = match_length(1) [OF m]
  show ?case
  proof (cases bar)
    case True
    with r obtain matched s2 where e: "match_expression s1 = Some (matched, s2)"
      and r2: "(if matched then expressions_loop s2 else Some s2) = Some s'"
      by (auto split: option.splits)
    note l2 = match_expression_length [OF e]
    show ?thesis
    proof (cases matched)
      case m2: True
      with r2 have "expressions_loop s2 = Some s'" by simp
      with m True e m2 have "length (position s') \<le> length (position s2)"
        using "1.IH" [of "(bar, s1)" bar s1 "(matched, s2)" matched s2] by simp
      with l l2 show ?thesis by simp
    next
      case False
      with r2 l l2 show ?thesis by simp
    qed
  next
    case False
    with r l show ?thesis by simp
  qed
qed

definition match_expressions :: "parser \<Rightarrow> (bool \<times> parser) option" where
  "match_expressions s =
     do { (expression, s1) \<leftarrow> match_expression s;
          s2 \<leftarrow> expressions_loop s1;
          Some (True, s2) }"

definition match_production_statement :: "parser \<Rightarrow> (bool \<times> parser) option" where
  "match_production_statement s =
     do { (matched, s1) \<leftarrow> match_identifier s;
          if matched
          then do { (colon, s2) \<leftarrow> expect '':'' (call (Production (c_str (lexeme s1)) (line s1)) s1);
                    (expressions, s3) \<leftarrow> match_expressions s2;
                    (semicolon, s4) \<leftarrow> expect '';'' s3;
                    Some (True, call EndProduction s4) }
          else Some (False, s1) }"

text \<open>
  \<open>match_statement\<close>: the three alternatives joined by \<open>||\<close>; a later one runs on
  the state the earlier ones left.
\<close>

definition match_statement :: "parser \<Rightarrow> (bool \<times> parser) option" where
  "match_statement s =
     do { (associativity, s1) \<leftarrow> match_associativity_statement s;
          if associativity then Some (True, s1)
          else do {
            (whitespace, s2) \<leftarrow> match_whitespace_statement s1;
            if whitespace then Some (True, s2)
            else match_production_statement s2 } }"

lemma match_expressions_length:
  "match_expressions s = Some (matched, s') \<Longrightarrow> length (position s') \<le> length (position s)"
  by (auto simp: match_expressions_def bind_eq_Some_conv
      dest!: match_expression_length expressions_loop_length)

lemma match_production_statement_shrinks:
  "match_production_statement s = Some (matched, s') \<Longrightarrow>
     length (position s') \<le> length (position s) \<and>
     (matched \<longrightarrow> length (position s') < length (position s))"
  by (auto simp: match_production_statement_def bind_eq_Some_conv split: if_splits
      dest!: match_identifier_shrinks match_expressions_length expect_length)

lemma match_statement_shrinks:
  "match_statement s = Some (matched, s') \<Longrightarrow>
     length (position s') \<le> length (position s) \<and>
     (matched \<longrightarrow> length (position s') < length (position s))"
  by (auto simp: match_statement_def bind_eq_Some_conv split: if_splits
      dest!: match_associativity_statement_shrinks match_whitespace_statement_shrinks
        match_production_statement_shrinks)

text \<open>\<open>match_statements\<close>: the loop \<open>while ( match_statement() )\<close>.\<close>

function match_statements :: "parser \<Rightarrow> (bool \<times> parser) option" where
  "match_statements s =
     (case match_statement s of
        None \<Rightarrow> None
      | Some (matched, s') \<Rightarrow> if matched then match_statements s' else Some (True, s'))"
  by pat_completeness auto
termination
proof (relation "measure (\<lambda>s. length (position s))")
  show "wf (measure (\<lambda>s. length (position s)))" by simp
next
  fix s r matched s'
  assume "match_statement s = Some r" "(matched, s') = r" "matched"
  then show "(s', s) \<in> measure (\<lambda>s. length (position s))"
    using match_statement_shrinks [of s matched s'] by simp
qed

declare match_statements.simps [simp del]

subsection \<open>The grammar and the entry point\<close>

definition match_grammar :: "parser \<Rightarrow> (bool \<times> parser) option" where
  "match_grammar s =
     do { (matched, s1) \<leftarrow> match_identifier s;
          if matched
          then do { (open_brace, s2) \<leftarrow> expect ''{'' (call (Grammar (c_str (lexeme s1))) s1);
                    (statements, s3) \<leftarrow> match_statements s2;
                    (close_brace, s4) \<leftarrow> expect ''}'' s3;
                    match_end s4 }
          else Some (False, s1) }"

text \<open>
  \<open>parse\<close> on a parser object \<open>p\<close> (whatever an earlier call left in it), over the
  characters \<open>start_finish\<close> of the range \<open>[start, finish)\<close>, with the two collaborators.
  It gives the return value and the parser with its collaborators afterwards, or \<open>None\<close>
  where the scan of a block comment leaves the range. (The three assertions at entry hold:
  the range and the grammar are given.)
\<close>

definition parse :: "parser \<Rightarrow> string \<Rightarrow> report list option \<Rightarrow> event list \<Rightarrow> (int \<times> parser) option" where
  "parse p start_finish policy builder =
     do { (matched, s) \<leftarrow>
            match_grammar (p\<lparr>error_policy := policy, grammar := builder,
                             position := start_finish, line := 1, errors := 0\<rparr>);
          let s' = (if \<not> matched
                    then error 1 0 LALR_ERROR_SYNTAX ''parsing grammar failed'' s else s);
          Some (errors s', s') }"

subsection \<open>What skipping whitespace and comments leaves alone\<close>

lemma match_whitespace_and_comments_end:
  "position s = [] \<Longrightarrow> match_whitespace_and_comments s = Some s"
  by (subst match_whitespace_and_comments.simps)
    (simp add: match_whitespace_def match_line_comment_def match_block_comment_def
      match_without_skipping_whitespace_def)

lemma match_whitespace_and_comments_token:
  "position s = c # cs \<Longrightarrow> \<not> isspace c \<Longrightarrow> c \<noteq> CHR ''/'' \<Longrightarrow>
     match_whitespace_and_comments s = Some s"
  by (subst match_whitespace_and_comments.simps)
    (simp add: match_whitespace_def match_line_comment_def match_block_comment_def
      match_without_skipping_whitespace_def)

lemma match_whitespace_frame:
  "snd (match_whitespace s) =
     s\<lparr>position := position (snd (match_whitespace s)), line := line (snd (match_whitespace s))\<rparr>"
  by (simp add: match_whitespace_def split: list.splits prod.splits)

lemma match_line_comment_frame:
  "snd (match_line_comment s) = s\<lparr>position := position (snd (match_line_comment s))\<rparr>"
  by (auto simp: match_line_comment_def match_without_skipping_whitespace_def
      split: list.splits prod.splits bool.splits)

lemma match_block_comment_frame:
  "match_block_comment s = Some (matched, s') \<Longrightarrow> s' = s\<lparr>position := position s'\<rparr>"
  by (auto simp: match_block_comment_def match_without_skipping_whitespace_def
      split: list.splits prod.splits bool.splits option.splits)

lemma match_whitespace_and_comments_frame:
  "match_whitespace_and_comments s = Some s' \<Longrightarrow>
     s' = s\<lparr>position := position s', line := line s'\<rparr>"
proof (induction s rule: match_whitespace_and_comments.induct)
  case (1 s)
  show ?case
  proof (cases "fst (match_whitespace s)")
    case True
    with "1.prems" have "match_whitespace_and_comments (snd (match_whitespace s)) = Some s'"
      by (simp add: match_whitespace_and_comments_whitespace)
    with True have "s' = (snd (match_whitespace s))\<lparr>position := position s', line := line s'\<rparr>"
      by (rule "1.IH"(1))
    then show ?thesis
      by (subst (asm) match_whitespace_frame) simp
  next
    case ws: False
    show ?thesis
    proof (cases "fst (match_line_comment s)")
      case True
      with ws "1.prems" have "match_whitespace_and_comments (snd (match_line_comment s)) = Some s'"
        by (simp add: match_whitespace_and_comments_line_comment)
      with ws True have "s' = (snd (match_line_comment s))\<lparr>position := position s', line := line s'\<rparr>"
        using "1.IH"(2) by (simp add: match_whitespace_False)
      then show ?thesis
        by (subst (asm) match_line_comment_frame) simp
    next
      case lc: False
      note unfold = match_whitespace_and_comments_block_comment [OF ws lc]
      show ?thesis
      proof (cases "match_block_comment s")
        case None
        with unfold "1.prems" show ?thesis by simp
      next
        case (Some r)
        obtain matched s1 where r: "r = (matched, s1)" by (cases r)
        show ?thesis
        proof (cases matched)
          case True
          with unfold Some r "1.prems" have "match_whitespace_and_comments s1 = Some s'"
            by simp
          with ws lc Some r True have "s' = s1\<lparr>position := position s', line := line s'\<rparr>"
            using "1.IH"(3) [of r matched s1]
            by (simp add: match_whitespace_False match_line_comment_False)
          moreover have "s1 = s\<lparr>position := position s1\<rparr>"
            using Some r by (auto dest: match_block_comment_frame)
          ultimately show ?thesis by (metis parser.update_convs(3) parser.surjective parser.update_convs(4))
        next
          case False
          with unfold Some r "1.prems" have "s' = s1" by simp
          moreover have "s1 = s"
            using Some r False by (auto dest: match_block_comment_False)
          ultimately show ?thesis by simp
        qed
      qed
    qed
  qed
qed

subsection \<open>The scans of a literal and of a regular expression\<close>

lemma regex_loop_body:
  "(\<forall>i<length body. body ! i = CHR 0x22 \<longrightarrow>
       (if i = 0 then escaped else body ! (i - 1) = CHR 0x5C)) \<Longrightarrow>
   regex_loop (body @ CHR 0x22 # tail) escaped =
     (if (if body = [] then escaped else last body = CHR 0x5C)
      then regex_loop tail False else CHR 0x22 # tail)"
proof (induction body arbitrary: escaped)
  case Nil
  then show ?case by simp
next
  case (Cons c cs)
  from Cons.prems have c: "c = CHR 0x22 \<longrightarrow> escaped" by fastforce
  have "\<forall>i<length cs. cs ! i = CHR 0x22 \<longrightarrow>
       (if i = 0 then c = CHR 0x5C else cs ! (i - 1) = CHR 0x5C)"
  proof (intro allI impI)
    fix i assume i: "i < length cs" and q: "cs ! i = CHR 0x22"
    from Cons.prems i q have "(c # cs) ! (Suc i - 1) = CHR 0x5C"
      by (metis Suc_less_eq length_Cons nat.simps(3) nth_Cons_Suc)
    then show "if i = 0 then c = CHR 0x5C else cs ! (i - 1) = CHR 0x5C"
      by (cases i) auto
  qed
  from Cons.IH [OF this] c show ?case by auto
qed

lemma literal_loop_body:
  "(\<forall>i<length body. \<not> is_newline (body ! i)) \<Longrightarrow>
   (\<forall>i<length body. body ! i = CHR 0x27 \<longrightarrow>
       (if i = 0 then escaped else body ! (i - 1) = CHR 0x5C)) \<Longrightarrow>
   is_newline nl \<Longrightarrow>
   literal_loop (body @ nl # tail) escaped = nl # tail"
proof (induction body arbitrary: escaped)
  case Nil
  then show ?case by simp
next
  case (Cons c cs)
  from Cons.prems have c: "c = CHR 0x27 \<longrightarrow> escaped" and n: "\<not> is_newline c"
    by fastforce+
  have 1: "\<forall>i<length cs. \<not> is_newline (cs ! i)"
    using Cons.prems(1) by fastforce
  have 2: "\<forall>i<length cs. cs ! i = CHR 0x27 \<longrightarrow>
       (if i = 0 then c = CHR 0x5C else cs ! (i - 1) = CHR 0x5C)"
  proof (intro allI impI)
    fix i assume i: "i < length cs" and q: "cs ! i = CHR 0x27"
    from Cons.prems(2) i q have "(c # cs) ! (Suc i - 1) = CHR 0x5C"
      by (metis Suc_less_eq length_Cons nat.simps(3) nth_Cons_Suc)
    then show "if i = 0 then c = CHR 0x5C else cs ! (i - 1) = CHR 0x5C"
      by (cases i) auto
  qed
  from Cons.IH [OF 1 2 Cons.prems(3)] c n show ?case by auto
qed

lemma isspace_quotes [simp]:
  "\<not> isspace (CHR 0x22)" "\<not> isspace (CHR 0x27)"
  by (simp_all add: isspace_def code_def)

text \<open>The parser object as its constructor leaves it.\<close>

definition GrammarParser :: parser where
  "GrammarParser =
     \<lparr>error_policy = None, grammar = [], position = [], line = 1, lexeme = [], errors = 0\<rparr>"

subsection \<open>The lexeme a call finds in the parser\<close>

lemma match_whitespace_lexeme:
  "match_whitespace (s\<lparr>lexeme := l\<rparr>) =
     (fst (match_whitespace s), (snd (match_whitespace s))\<lparr>lexeme := l\<rparr>)"
  by (simp add: match_whitespace_def split: list.splits prod.splits)

lemma match_line_comment_lexeme:
  "match_line_comment (s\<lparr>lexeme := l\<rparr>) =
     (fst (match_line_comment s), (snd (match_line_comment s))\<lparr>lexeme := l\<rparr>)"
  by (simp add: match_line_comment_def match_without_skipping_whitespace_def
      split: list.splits prod.splits)

lemma match_block_comment_lexeme:
  "match_block_comment (s\<lparr>lexeme := l\<rparr>) =
     map_option (\<lambda>(matched, s'). (matched, s'\<lparr>lexeme := l\<rparr>)) (match_block_comment s)"
  by (simp add: match_block_comment_def match_without_skipping_whitespace_def
      split: list.splits prod.splits option.splits)

lemma match_whitespace_and_comments_lexeme:
  "match_whitespace_and_comments (s\<lparr>lexeme := l\<rparr>) =
     map_option (\<lambda>s'. s'\<lparr>lexeme := l\<rparr>) (match_whitespace_and_comments s)"
proof (induction s rule: match_whitespace_and_comments.induct)
  case (1 s)
  show ?case
  proof (cases "fst (match_whitespace s)")
    case True
    then have "fst (match_whitespace (s\<lparr>lexeme := l\<rparr>))"
      by (simp add: match_whitespace_lexeme)
    then have "match_whitespace_and_comments (s\<lparr>lexeme := l\<rparr>) =
        match_whitespace_and_comments ((snd (match_whitespace s))\<lparr>lexeme := l\<rparr>)"
      by (simp add: match_whitespace_and_comments_whitespace match_whitespace_lexeme)
    with True "1.IH"(1) show ?thesis
      by (simp add: match_whitespace_and_comments_whitespace)
  next
    case ws: False
    then have ws': "\<not> fst (match_whitespace (s\<lparr>lexeme := l\<rparr>))"
      by (simp add: match_whitespace_lexeme)
    show ?thesis
    proof (cases "fst (match_line_comment s)")
      case True
      then have "fst (match_line_comment (s\<lparr>lexeme := l\<rparr>))"
        by (simp add: match_line_comment_lexeme)
      with ws' have "match_whitespace_and_comments (s\<lparr>lexeme := l\<rparr>) =
          match_whitespace_and_comments ((snd (match_line_comment s))\<lparr>lexeme := l\<rparr>)"
        by (simp add: match_whitespace_and_comments_line_comment match_line_comment_lexeme)
      with ws True "1.IH"(2) show ?thesis
        by (simp add: match_whitespace_and_comments_line_comment match_whitespace_False)
    next
      case lc: False
      then have lc': "\<not> fst (match_line_comment (s\<lparr>lexeme := l\<rparr>))"
        by (simp add: match_line_comment_lexeme)
      note unfold = match_whitespace_and_comments_block_comment [OF ws lc]
      note unfold' = match_whitespace_and_comments_block_comment [OF ws' lc']
      show ?thesis
      proof (cases "match_block_comment s")
        case None
        with unfold unfold' show ?thesis by (simp add: match_block_comment_lexeme)
      next
        case (Some r)
        obtain matched s1 where r: "r = (matched, s1)" by (cases r)
        show ?thesis
        proof (cases matched)
          case True
          with ws lc Some r have "match_whitespace_and_comments (s1\<lparr>lexeme := l\<rparr>) =
              map_option (\<lambda>s'. s'\<lparr>lexeme := l\<rparr>) (match_whitespace_and_comments s1)"
            using "1.IH"(3) [of r matched s1]
            by (simp add: match_whitespace_False match_line_comment_False)
          with unfold unfold' Some r True show ?thesis
            by (simp add: match_block_comment_lexeme)
        next
          case False
          with unfold unfold' Some r show ?thesis
            by (simp add: match_block_comment_lexeme)
        qed
      qed
    qed
  qed
qed

lemma match_identifier_lexeme:
  "match_identifier (s\<lparr>lexeme := l\<rparr>) =
     map_option (\<lambda>(matched, s'). (matched, if matched then s' else s'\<lparr>lexeme := l\<rparr>))
       (match_identifier s)"
  by (cases "match_whitespace_and_comments s")
    (simp_all add: match_identifier_def match_whitespace_and_comments_lexeme split: list.splits)

lemma match_grammar_lexeme:
  "match_grammar (s\<lparr>lexeme := l\<rparr>) =
     map_option (\<lambda>(matched, s'). (matched, if fst (the (match_identifier s)) then s' else s'\<lparr>lexeme := l\<rparr>))
       (match_grammar s)"
proof (cases "match_identifier s")
  case None
  then show ?thesis by (simp add: match_grammar_def match_identifier_lexeme)
next
  case (Some r)
  obtain matched s1 where r: "r = (matched, s1)" by (cases r)
  show ?thesis
  proof (cases matched)
    case True
    with Some r have "match_grammar (s\<lparr>lexeme := l\<rparr>) = match_grammar s"
      by (simp add: match_grammar_def match_identifier_lexeme)
    with Some r True show ?thesis
      by (simp add: option.map_ident map_option.identity split_def cong: option.map_cong)
  next
    case False
    with Some r show ?thesis by (simp add: match_grammar_def match_identifier_lexeme)
  qed
qed

text \<open>
  What a caller sees of a call of \<open>parse\<close>: the return value and the calls made on the
  two collaborators.
\<close>

definition outcome :: "(int \<times> parser) option \<Rightarrow> (int \<times> event list \<times> report list option) option" where
  "outcome r = map_option (\<lambda>(n, s). (n, grammar s, error_policy s)) r"

lemma parse_any_parser:
  "outcome (parse p1 start_finish policy builder) = outcome (parse p2 start_finish policy builder)"
proof -
  let ?s1 = "p1\<lparr>error_policy := policy, grammar := builder,
                 position := start_finish, line := 1, errors := 0\<rparr>"
  let ?s2 = "p2\<lparr>error_policy := policy, grammar := builder,
                 position := start_finish, line := 1, errors := 0\<rparr>"
  have eq: "?s2 = ?s1\<lparr>lexeme := lexeme p2\<rparr>" by simp
  have "match_grammar ?s2 =
     map_option (\<lambda>(matched, s'). (matched, if fst (the (match_identifier ?s1)) then s' else s'\<lparr>lexeme := lexeme p2\<rparr>))
       (match_grammar ?s1)"
    by (subst eq) (rule match_grammar_lexeme)
  then show ?thesis
    by (cases "match_grammar ?s1")
      (auto simp: parse_def outcome_def error_def Let_def split: prod.splits)
qed

text \<open>The errors reported to the error policy in a call of \<open>parse\<close>, and their kinds.\<close>

definition reported :: "(int \<times> parser) option \<Rightarrow> report list" where
  "reported r =
     (case r of
        None \<Rightarrow> []
      | Some (n, s) \<Rightarrow> (case error_policy s of None \<Rightarrow> [] | Some log \<Rightarrow> log))"

fun report_code :: "report \<Rightarrow> error_code" where
  "report_code (Report ln column ec message) = ec"

subsection \<open>At the end of the input\<close>

lemma match_at_end:
  "position s = [] \<Longrightarrow> keyword \<noteq> [] \<Longrightarrow> match keyword s = Some (False, s)"
  by (cases keyword)
    (simp_all add: match_def match_whitespace_and_comments_end
      match_without_skipping_whitespace_def)

lemma match_identifier_at_end:
  "position s = [] \<Longrightarrow> match_identifier s = Some (False, s)"
  by (simp add: match_identifier_def match_whitespace_and_comments_end)

lemma match_literal_at_end:
  "position s = [] \<Longrightarrow> match_literal s = Some (False, s)"
  by (simp add: match_literal_def match_whitespace_and_comments_end match_at_end)

lemma match_regex_at_end:
  "position s = [] \<Longrightarrow> match_regex s = Some (False, s)"
  by (simp add: match_regex_def match_whitespace_and_comments_end match_at_end)

section \<open>Items: Item.cpp\<close>

text \<open>
  Symbols and productions are held by pointer. A pointer to a symbol is modelled as its
  address; a pointer to a production as the production it points to, or \<open>None\<close> for the
  null pointer.
\<close>

type_synonym symbol_ptr = nat

text \<open>
  Modelled from the spec: the class \<open>Production\<close> is declared in \<open>Production.hpp\<close>, which
  is not among the sources. The spec gives a production a head, a body (an ordered
  sequence of symbol references), an optional precedence symbol, an optional action
  identifier and an index; \<open>length()\<close> is the length of the body.
\<close>

record production =
  production_head :: symbol_ptr
  production_body :: "symbol_ptr list"
  production_precedence_symbol :: "symbol_ptr option"
  production_action_identifier :: "string option"
  production_index :: int

text \<open>
  Modelled from the spec: \<open>Production::length()\<close> (missing) as the length of the body, the
  \<open>|body|\<close> of the invariant of an item.
\<close>

definition production_length :: "production \<Rightarrow> int" where
  "production_length p = int (length (production_body p))"

text \<open>
  The fields \<open>production_\<close>, \<open>position_\<close> and the mutable \<open>lookahead_symbols_\<close> (a
  \<open>std::set\<close> of symbol pointers: a finite set).
\<close>

record item =
  item_production :: "production option"
  item_position :: int
  item_lookahead_symbols :: "symbol_ptr fset"

text \<open>A failed \<open>SWEET_ASSERT\<close> stops the program (a build with assertions).\<close>

datatype failure = Assertion_failed

text \<open>The default constructor \<open>Item()\<close>.\<close>

definition Item_default :: item where
  "Item_default = \<lparr>item_production = None, item_position = 0, item_lookahead_symbols = {||}\<rparr>"

text \<open>The constructor \<open>Item( Production* production, int position )\<close> with its two assertions.\<close>

definition Item :: "production option \<Rightarrow> int \<Rightarrow> failure + item" where
  "Item production_arg position_arg =
     (case production_arg of
        None \<Rightarrow> Inl Assertion_failed
      | Some p \<Rightarrow>
          if position_arg \<ge> 0 \<and> position_arg < production_length p + 1
          then Inr \<lparr>item_production = Some p, item_position = position_arg,
                     item_lookahead_symbols = {||}\<rparr>
          else Inl Assertion_failed)"

text \<open>
  The const member functions. Those that follow \<open>production_\<close> have no value on a null
  pointer. \<open>next_node\<close> compares with \<open>production_->symbol_by_position(position_)\<close>, a
  function of \<open>Production\<close> that is not among the sources: it is a parameter.
\<close>

definition dot_at_beginning :: "item \<Rightarrow> bool" where
  "dot_at_beginning it = (item_position it = 0)"

definition dot_at_end :: "item \<Rightarrow> bool option" where
  "dot_at_end it = map_option (\<lambda>p. item_position it = production_length p) (item_production it)"

definition next_node :: "(production \<Rightarrow> int \<Rightarrow> symbol_ptr option) \<Rightarrow> item \<Rightarrow> symbol_ptr \<Rightarrow> bool option" where
  "next_node symbol_by_position it symbol =
     map_option (\<lambda>p. symbol_by_position p (item_position it) = Some symbol) (item_production it)"

definition item_less :: "item \<Rightarrow> item \<Rightarrow> bool option" where
  "item_less it other =
     (case (item_production it, item_production other) of
        (Some p, Some q) \<Rightarrow>
          Some (production_index p < production_index q \<or> (production_index p = production_index q \<and> item_position it < item_position other))
      | _ \<Rightarrow> None)"

text \<open>
  \<open>add_lookahead_symbols\<close>: the only member function that changes the item. It returns
  the difference of the sizes of the set after and before the insertion.
\<close>

definition add_lookahead_symbols :: "symbol_ptr fset \<Rightarrow> item \<Rightarrow> int \<times> item" where
  "add_lookahead_symbols lookahead_symbols it =
     (let original_size = fcard (item_lookahead_symbols it);
          it' = it\<lparr>item_lookahead_symbols := item_lookahead_symbols it |\<union>| lookahead_symbols\<rparr>
      in (int (fcard (item_lookahead_symbols it')) - int original_size, it'))"

text \<open>
  The member functions of \<open>Item.cpp\<close> as operations on an item, and the item each
  leaves: all are const, and only \<open>add_lookahead_symbols\<close> writes to a field (the
  mutable lookahead set).
\<close>

datatype operation =
    Get_production
  | Get_position
  | Dot_at_beginning
  | Dot_at_end
  | Next_node symbol_ptr
  | Get_lookahead_symbols
  | Less_than item
  | Add_lookahead_symbols "symbol_ptr fset"

fun run :: "operation \<Rightarrow> item \<Rightarrow> item" where
  "run (Add_lookahead_symbols lookahead_symbols) it = snd (add_lookahead_symbols lookahead_symbols it)"
| "run other_operation it = it"

text \<open>The invariant of an item built by the second constructor.\<close>

definition item_invariant :: "item \<Rightarrow> bool" where
  "item_invariant it =
     (case item_production it of
        None \<Rightarrow> False
      | Some p \<Rightarrow> 0 \<le> item_position it \<and> item_position it \<le> production_length p)"

lemma fcard_funion_growth:
  "fcard (A |\<union>| B) = fcard A + fcard (B |-| A)"
proof -
  have "fset A \<union> fset B = fset A \<union> (fset B - fset A)" by auto
  moreover have "card (fset A \<union> (fset B - fset A)) = card (fset A) + card (fset B - fset A)"
    by (rule card_Un_disjoint) auto
  ultimately show ?thesis by (simp add: fcard.rep_eq)
qed

lemma run_fields:
  "item_production (run operation it) = item_production it \<and>
   item_position (run operation it) = item_position it"
  by (cases operation) (simp_all add: add_lookahead_symbols_def Let_def)

section \<open>The generator: grammar model, item sets, lookaheads and table\<close>

text \<open>
  The classes behind the grammar builder and the state machine (\<open>Grammar\<close>,
  \<open>ParserStateMachine\<close> and what they use) are not among the sources; of them
  there is only a test that calls them. This section models them from the spec: its data
  model (section 3), the grammar model and its finalization (4.A), the item-set
  constructor (4.C), the lookahead propagator (4.D), the table compiler with its conflict
  resolution (4.E), the adapter of the lexical builder (4.F) and the error bands (7). The
  lexical builder itself is an external collaborator and the caps on states, symbols and
  productions are implementation-defined: both are parameters.
\<close>

subsection \<open>Data model\<close>

text \<open>Modelled from the spec: the kinds of a symbol (class \<open>Symbol\<close> is missing).\<close>

datatype symbol_kind = Non_terminal | Terminal | End_of_input | Error_kind | Null_kind

text \<open>Modelled from the spec: the lexeme kinds of a symbol.\<close>

datatype lexeme_kind = Literal_lexeme | Regex_lexeme | Null_lexeme

text \<open>Modelled from the spec: the associativity of a symbol.\<close>

datatype associativity = Assoc_none | Assoc_left | Assoc_right

text \<open>
  Modelled from the spec: a symbol (class \<open>Symbol\<close> is missing), with its identifier,
  kind, lexeme kind, precedence (0 for unspecified), associativity and index.
\<close>

record symbol =
  symbol_identifier :: string
  symbol_kind :: symbol_kind
  symbol_lexeme_kind :: lexeme_kind
  symbol_precedence :: nat
  symbol_associativity :: associativity
  symbol_index :: nat

subsection \<open>The grammar builder\<close>

text \<open>
  Modelled from the spec: how the builder (class \<open>Grammar\<close>, missing) names a symbol
  before finalization. \<open>identifier\<close> refers to a non-terminal, \<open>literal\<close> to a literal
  terminal and \<open>regex\<close> to a regex terminal, so a symbol is known by its text together
  with its lexeme kind.
\<close>

type_synonym symbol_key = "string \<times> lexeme_kind"

text \<open>
  Modelled from the spec: one alternative of a production as the builder collects it
  (class \<open>Grammar\<close> is missing): head, body, precedence-override symbol, action tag.
\<close>

record alternative =
  alternative_head :: string
  alternative_body :: "symbol_key list"
  alternative_precedence :: "symbol_key option"
  alternative_action :: "string option"

text \<open>
  Modelled from the spec: where the builder is (class \<open>Grammar\<close> is missing): outside
  any statement, after \<open>left\<close>, \<open>right\<close> or \<open>none\<close>, after \<open>whitespace\<close>, in the body of
  an alternative, or after \<open>precedence\<close>.
\<close>

datatype builder_mode = Outside | In_associativity | In_whitespace | In_body | In_precedence

text \<open>
  Modelled from the spec: the state of the builder (class \<open>Grammar\<close> is missing): the
  grammar name, the symbols in order of first appearance, the precedence level and
  associativity given to symbols, the whitespace patterns, the finished alternatives, the
  current precedence level and its associativity, the mode and the alternative under
  construction.
\<close>

record builder =
  builder_name :: string
  builder_symbols :: "symbol_key list"
  builder_levels :: "(symbol_key \<times> nat \<times> associativity) list"
  builder_whitespace :: "string list"
  builder_alternatives :: "alternative list"
  builder_level :: nat
  builder_associativity :: associativity
  builder_mode :: builder_mode
  builder_current :: alternative

text \<open>
  Modelled from the spec: how the builder (class \<open>Grammar\<close> is missing) notes a symbol
  at its first appearance; a symbol it has seen is not noted twice.
\<close>

definition remember :: "'a \<Rightarrow> 'a list \<Rightarrow> 'a list" where
  "remember x xs = (if x \<in> set xs then xs else xs @ [x])"

text \<open>
  Modelled from the spec: the builder before the first call (class
  \<open>Grammar\<close> is missing).
\<close>

definition new_builder :: builder where
  "new_builder =
     \<lparr>builder_name = [], builder_symbols = [], builder_levels = [], builder_whitespace = [],
      builder_alternatives = [], builder_level = 0, builder_associativity = Assoc_none,
      builder_mode = Outside,
      builder_current = \<lparr>alternative_head = [], alternative_body = [],
                          alternative_precedence = None, alternative_action = None\<rparr>\<rparr>"

text \<open>
  Modelled from the spec: \<open>left\<close>, \<open>right\<close> and \<open>none\<close> of the builder (class \<open>Grammar\<close>
  is missing) open a new precedence level, numerically increasing.
\<close>

definition open_level :: "associativity \<Rightarrow> builder \<Rightarrow> builder" where
  "open_level a b =
     b\<lparr>builder_level := builder_level b + 1, builder_associativity := a,
       builder_mode := In_associativity\<rparr>"

text \<open>
  Modelled from the spec: \<open>identifier\<close>, \<open>literal\<close>, \<open>regex\<close> and \<open>error\<close> of the builder
  (class \<open>Grammar\<close> is missing). After \<open>left\<close>, \<open>right\<close> or \<open>none\<close> the symbol gets the
  current level; after \<open>whitespace\<close> a regex is a whitespace pattern; after \<open>precedence\<close>
  the symbol is the precedence override of the current alternative; otherwise it is
  appended to the current body.
\<close>

definition add_symbol :: "symbol_key \<Rightarrow> builder \<Rightarrow> builder" where
  "add_symbol k b =
     (case builder_mode b of
        In_whitespace \<Rightarrow>
          b\<lparr>builder_whitespace := builder_whitespace b @ [fst k], builder_mode := Outside\<rparr>
      | In_associativity \<Rightarrow>
          b\<lparr>builder_symbols := remember k (builder_symbols b),
            builder_levels := builder_levels b @ [(k, builder_level b, builder_associativity b)]\<rparr>
      | In_precedence \<Rightarrow>
          b\<lparr>builder_symbols := remember k (builder_symbols b),
            builder_current := (builder_current b)\<lparr>alternative_precedence := Some k\<rparr>,
            builder_mode := In_body\<rparr>
      | In_body \<Rightarrow>
          b\<lparr>builder_symbols := remember k (builder_symbols b),
            builder_current := (builder_current b)
              \<lparr>alternative_body := alternative_body (builder_current b) @ [k]\<rparr>\<rparr>
      | Outside \<Rightarrow> b)"

text \<open>
  Modelled from the spec: the end of the current alternative in the builder (class
  \<open>Grammar\<close> is missing): it joins the finished alternatives and a new one with the same
  head begins. The front-end ends an alternative with \<open>end_expression\<close> or, when it has
  an action, with \<open>action\<close>.
\<close>

definition end_alternative :: "string option \<Rightarrow> builder \<Rightarrow> builder" where
  "end_alternative tag b =
     b\<lparr>builder_alternatives :=
         builder_alternatives b @ [(builder_current b)\<lparr>alternative_action := tag\<rparr>],
       builder_current := (builder_current b)
         \<lparr>alternative_body := [], alternative_precedence := None, alternative_action := None\<rparr>,
       builder_mode := In_body\<rparr>"

text \<open>
  Modelled from the spec: the builder operations (class \<open>Grammar\<close> is missing), one for
  each call the front-end makes.
\<close>

fun builder_step :: "builder \<Rightarrow> event \<Rightarrow> builder" where
  "builder_step b (Grammar name) = b\<lparr>builder_name := name\<rparr>"
| "builder_step b Whitespace = b\<lparr>builder_mode := In_whitespace\<rparr>"
| "builder_step b (LeftAssoc ln) = open_level Assoc_left b"
| "builder_step b (RightAssoc ln) = open_level Assoc_right b"
| "builder_step b (NoneAssoc ln) = open_level Assoc_none b"
| "builder_step b (Production name ln) =
     b\<lparr>builder_symbols := remember (name, Null_lexeme) (builder_symbols b),
       builder_current := \<lparr>alternative_head = name, alternative_body = [],
                            alternative_precedence = None, alternative_action = None\<rparr>,
       builder_mode := In_body\<rparr>"
| "builder_step b EndProduction = b\<lparr>builder_mode := Outside\<rparr>"
| "builder_step b (EndExpression ln) = end_alternative None b"
| "builder_step b (Action tag ln) = end_alternative (Some tag) b"
| "builder_step b Precedence = b\<lparr>builder_mode := In_precedence\<rparr>"
| "builder_step b (ErrorSymbol ln) = add_symbol (''error'', Null_lexeme) b"
| "builder_step b (Literal s ln) = add_symbol (s, Literal_lexeme) b"
| "builder_step b (Regex s ln) = add_symbol (s, Regex_lexeme) b"
| "builder_step b (Identifier s ln) = add_symbol (s, Null_lexeme) b"

text \<open>Modelled from the spec: the builder after a sequence of calls (class \<open>Grammar\<close> is missing).\<close>

definition build :: "event list \<Rightarrow> builder" where
  "build events = foldl builder_step new_builder events"

subsection \<open>Finalization\<close>

text \<open>
  Modelled from the spec: the semantic grammar errors of section 7 (the classes that
  report them are missing): an undefined symbol, a start symbol without productions, a
  duplicate production signature.
\<close>

datatype semantic_error =
    Undefined_symbol string
  | Start_symbol_without_productions
  | Duplicate_production_signature string

text \<open>
  Modelled from the spec: the finalized grammar (class \<open>Grammar\<close> is missing): the
  symbol table and the production table, each entry at the place of its index.
\<close>

record grammar_tables =
  tables_symbols :: "symbol list"
  tables_productions :: "production list"

text \<open>
  Modelled from the spec: the reserved slots of the symbol table (class \<open>Grammar\<close> is
  missing): the start symbol of the augmented grammar, end-of-input, \<open>error\<close> and
  \<open>null\<close>.
\<close>

definition start_index :: nat where "start_index = 0"
text \<open>
  Modelled from the spec: the reserved slot of end-of-input, \<open>$\<close> (class
  \<open>Grammar\<close> is missing).
\<close>

definition end_index :: nat where "end_index = 1"
text \<open>
  Modelled from the spec: the reserved slot of the \<open>error\<close> pseudo-terminal
  (class \<open>Grammar\<close> is missing).
\<close>

definition error_index :: nat where "error_index = 2"
text \<open>
  Modelled from the spec: the reserved slot of the \<open>null\<close> symbol (class
  \<open>Grammar\<close> is missing).
\<close>

definition null_index :: nat where "null_index = 3"

text \<open>
  Modelled from the spec: how the builder names the \<open>error\<close> pseudo-terminal
  (class \<open>Grammar\<close> is missing).
\<close>

definition error_key :: symbol_key where
  "error_key = (''error'', Null_lexeme)"

text \<open>
  Modelled from the spec: finalization step 2 (class \<open>Grammar\<close> is missing). A symbol is
  a terminal iff it has no production with it as head or it is a literal or a regex; so
  the non-terminals are the identifiers that head a production.
\<close>

definition is_head :: "builder \<Rightarrow> symbol_key \<Rightarrow> bool" where
  "is_head b k = (snd k = Null_lexeme \<and> fst k \<in> set (map alternative_head (builder_alternatives b)))"

text \<open>
  Modelled from the spec: the non-terminals of the grammar, in order of first appearance
  (class \<open>Grammar\<close> is missing).
\<close>

definition non_terminal_keys :: "builder \<Rightarrow> symbol_key list" where
  "non_terminal_keys b = filter (is_head b) (builder_symbols b)"

text \<open>
  Modelled from the spec: the terminals of the grammar, in order of first appearance
  (class \<open>Grammar\<close> is missing).
\<close>

definition terminal_keys :: "builder \<Rightarrow> symbol_key list" where
  "terminal_keys b = filter (\<lambda>k. \<not> is_head b k \<and> k \<noteq> error_key) (builder_symbols b)"

text \<open>
  Modelled from the spec: finalization step 4 (class \<open>Grammar\<close> is missing). Dense
  indices in a stable order: the reserved slots, then the non-terminals, then the
  terminals, each group in order of first appearance.
\<close>

fun position_of :: "'a \<Rightarrow> 'a list \<Rightarrow> nat option" where
  "position_of x [] = None"
| "position_of x (y # ys) = (if x = y then Some 0 else map_option Suc (position_of x ys))"

text \<open>
  Modelled from the spec: the index of a named symbol (class \<open>Grammar\<close> is
  missing): after the four reserved slots, the non-terminals first, then the terminals.
\<close>

definition key_index :: "builder \<Rightarrow> symbol_key \<Rightarrow> nat option" where
  "key_index b k =
     (if k = error_key then Some error_index
      else map_option (\<lambda>i. i + 4) (position_of k (non_terminal_keys b @ terminal_keys b)))"

text \<open>
  Modelled from the spec: the symbol of a key (class \<open>Symbol\<close> is missing), with the
  precedence level and associativity declared for it, or 0 and none.
\<close>

definition key_precedence :: "builder \<Rightarrow> symbol_key \<Rightarrow> nat \<times> associativity" where
  "key_precedence b k = (case map_of (builder_levels b) k of None \<Rightarrow> (0, Assoc_none) | Some la \<Rightarrow> la)"

text \<open>
  Modelled from the spec: the symbol of a name at an index (class \<open>Symbol\<close>
  is missing).
\<close>

definition key_symbol :: "builder \<Rightarrow> symbol_key \<Rightarrow> nat \<Rightarrow> symbol" where
  "key_symbol b k i =
     \<lparr>symbol_identifier = fst k,
      symbol_kind = (if is_head b k then Non_terminal else Terminal),
      symbol_lexeme_kind = snd k,
      symbol_precedence = fst (key_precedence b k),
      symbol_associativity = snd (key_precedence b k),
      symbol_index = i\<rparr>"

text \<open>
  Modelled from the spec: a symbol of a reserved slot (class \<open>Symbol\<close> is
  missing).
\<close>

definition reserved_symbol :: "string \<Rightarrow> symbol_kind \<Rightarrow> nat \<times> associativity \<Rightarrow> nat \<Rightarrow> symbol" where
  "reserved_symbol name k la i =
     \<lparr>symbol_identifier = name, symbol_kind = k, symbol_lexeme_kind = Null_lexeme,
      symbol_precedence = fst la, symbol_associativity = snd la, symbol_index = i\<rparr>"

text \<open>
  Modelled from the spec: the symbol table after finalization (class \<open>Grammar\<close> is
  missing): the symbols \<open>$\<close>, \<open>error\<close> and \<open>null\<close> exist whatever the grammar.
\<close>

definition final_symbols :: "builder \<Rightarrow> symbol list" where
  "final_symbols b =
     [reserved_symbol ''.start'' Non_terminal (0, Assoc_none) start_index,
      reserved_symbol ''$'' End_of_input (0, Assoc_none) end_index,
      reserved_symbol ''error'' Error_kind (key_precedence b error_key) error_index,
      reserved_symbol ''null'' Null_kind (0, Assoc_none) null_index]
     @ map (\<lambda>(k, i). key_symbol b k (i + 4))
         (zip (non_terminal_keys b @ terminal_keys b)
            [0 ..< length (non_terminal_keys b @ terminal_keys b)])"

text \<open>
  Modelled from the spec: finalization steps 1 and 5 (class \<open>Grammar\<close> is missing).
  References are resolved to indices; a production without an explicit precedence symbol
  inherits the rightmost terminal of its body.
\<close>

definition resolve :: "builder \<Rightarrow> symbol_key list \<Rightarrow> nat list" where
  "resolve b ks = map (\<lambda>k. case key_index b k of None \<Rightarrow> null_index | Some i \<Rightarrow> i) ks"

text \<open>
  Modelled from the spec: the rightmost terminal of a body, finalization step 5 (class
  \<open>Grammar\<close> is missing).
\<close>

definition rightmost_terminal :: "builder \<Rightarrow> symbol_key list \<Rightarrow> symbol_key option" where
  "rightmost_terminal b ks =
     (case filter (\<lambda>k. \<not> is_head b k \<and> k \<noteq> error_key) (rev ks) of
        [] \<Rightarrow> None
      | k # rest \<Rightarrow> Some k)"

text \<open>
  Modelled from the spec: the production of an alternative, with resolved references and
  its explicit or inherited precedence symbol (class \<open>Production\<close> is
  missing).
\<close>

definition final_production :: "builder \<Rightarrow> alternative \<Rightarrow> nat \<Rightarrow> production" where
  "final_production b a i =
     \<lparr>production_head = (case key_index b (alternative_head a, Null_lexeme) of
                            None \<Rightarrow> null_index | Some h \<Rightarrow> h),
      production_body = resolve b (alternative_body a),
      production_precedence_symbol =
        (case alternative_precedence a of
           Some k \<Rightarrow> key_index b k
         | None \<Rightarrow> (case rightmost_terminal b (alternative_body a) of
                      None \<Rightarrow> None
                    | Some k \<Rightarrow> key_index b k)),
      production_action_identifier = alternative_action a,
      production_index = int i\<rparr>"

text \<open>
  Modelled from the spec: finalization step 3 (class \<open>Grammar\<close> is missing). The grammar
  is augmented with a fresh start production \<open>S' \<rightarrow> S $\<close>; \<open>S\<close> is the head of the
  first production of the grammar.
\<close>

definition augmented_production :: "builder \<Rightarrow> production" where
  "augmented_production b =
     \<lparr>production_head = start_index,
      production_body =
        resolve b [(alternative_head (hd (builder_alternatives b)), Null_lexeme)] @ [end_index],
      production_precedence_symbol = None,
      production_action_identifier = None,
      production_index = 0\<rparr>"

text \<open>
  Modelled from the spec: the production table (class \<open>Grammar\<close> is
  missing): the augmented production at index 0, then the alternatives in the order of
  the grammar.
\<close>

definition final_productions :: "builder \<Rightarrow> production list" where
  "final_productions b =
     augmented_production b
     # map (\<lambda>(a, i). final_production b a (i + 1))
         (zip (builder_alternatives b) [0 ..< length (builder_alternatives b)])"

text \<open>
  Modelled from the spec: the semantic errors of a grammar (class \<open>Grammar\<close> is missing).
  An identifier that heads no production is undefined; a grammar without productions has
  a start symbol without productions; an alternative with the head and body of an earlier
  one is a duplicate.
\<close>

definition undefined_symbols :: "builder \<Rightarrow> semantic_error list" where
  "undefined_symbols b =
     map (\<lambda>k. Undefined_symbol (fst k))
       (filter (\<lambda>k. snd k = Null_lexeme \<and> k \<noteq> error_key \<and> \<not> is_head b k) (builder_symbols b))"

text \<open>
  Modelled from the spec: the duplicate production signatures of section 7 (class
  \<open>Grammar\<close> is missing): an alternative with the head and body of a later
  one.
\<close>

fun duplicate_productions :: "alternative list \<Rightarrow> semantic_error list" where
  "duplicate_productions [] = []"
| "duplicate_productions (a # rest) =
     (if (alternative_head a, alternative_body a)
           \<in> set (map (\<lambda>x. (alternative_head x, alternative_body x)) rest)
      then [Duplicate_production_signature (alternative_head a)] else [])
     @ duplicate_productions rest"

text \<open>
  Modelled from the spec: all semantic errors of a grammar, section 7 (class
  \<open>Grammar\<close> is missing).
\<close>

definition semantic_errors :: "builder \<Rightarrow> semantic_error list" where
  "semantic_errors b =
     undefined_symbols b
     @ (if builder_alternatives b = [] then [Start_symbol_without_productions] else [])
     @ duplicate_productions (builder_alternatives b)"

text \<open>
  Modelled from the spec: finalization (class \<open>Grammar\<close> is missing). With a semantic
  error there are no tables: table construction is skipped.
\<close>

definition finalize :: "builder \<Rightarrow> semantic_error list \<times> grammar_tables option" where
  "finalize b =
     (if semantic_errors b = []
      then ([], Some \<lparr>tables_symbols = final_symbols b, tables_productions = final_productions b\<rparr>)
      else (semantic_errors b, None))"

subsection \<open>Fixed points\<close>

text \<open>
  Modelled from the spec: the computations of the pipeline (classes missing) are
  fixed-point iterations that stop when their growing sets are stable. \<open>fixpoint f x\<close>
  iterates \<open>f\<close> from \<open>x\<close> until nothing changes; it has no value if that never happens.
\<close>

partial_function (option) fixpoint :: "('a \<Rightarrow> 'a) \<Rightarrow> 'a \<Rightarrow> 'a option" where
  "fixpoint f x = (let y = f x in if y = x then Some x else fixpoint f y)"

declare fixpoint.simps [code]

text \<open>
  Modelled from the spec: sets (of items, of lookaheads) are kept as lists without
  repetition, in order of discovery (classes missing). \<open>join\<close> adds what is new at the
  end; \<open>same_set\<close> compares two lists as sets.
\<close>

definition join :: "'a list \<Rightarrow> 'a list \<Rightarrow> 'a list" where
  "join xs ys = foldl (\<lambda>acc y. remember y acc) xs ys"

text \<open>
  Modelled from the spec: the comparison of two sets kept as lists (classes missing);
  states are compared by their kernels with it.
\<close>

definition same_set :: "'a list \<Rightarrow> 'a list \<Rightarrow> bool" where
  "same_set xs ys = (list_all (\<lambda>x. List.member ys x) xs \<and> list_all (\<lambda>y. List.member xs y) ys)"

subsection \<open>FIRST sets\<close>

text \<open>
  Modelled from the spec: access to the finalized grammar (class \<open>Grammar\<close> is missing):
  the body of a production, the kind of a symbol, the productions of a head.
\<close>

definition body_of :: "grammar_tables \<Rightarrow> nat \<Rightarrow> nat list" where
  "body_of g p = production_body (tables_productions g ! p)"

text \<open>
  Modelled from the spec: the kind of the symbol at an index (class
  \<open>Grammar\<close> is missing).
\<close>

definition kind_of :: "grammar_tables \<Rightarrow> nat \<Rightarrow> symbol_kind" where
  "kind_of g x = symbol_kind (tables_symbols g ! x)"

text \<open>
  Modelled from the spec: the productions with a given head, by index (class
  \<open>Grammar\<close> is missing).
\<close>

definition productions_of :: "grammar_tables \<Rightarrow> nat \<Rightarrow> nat list" where
  "productions_of g x =
     filter (\<lambda>p. production_head (tables_productions g ! p) = x)
       [0 ..< length (tables_productions g)]"

text \<open>
  Modelled from the spec: FIRST of a sequence of symbols (section 4.C; the item-set
  constructor is missing). An element is a terminal, or \<open>None\<close> for the empty string:
  FIRST of the empty sequence is the empty string alone, and FIRST of \<open>Y \<beta>\<close> is FIRST of
  \<open>Y\<close> without the empty string, joined with FIRST of \<open>\<beta>\<close> if FIRST of \<open>Y\<close> has the empty
  string.
\<close>

fun first_of_body :: "nat option list list \<Rightarrow> nat list \<Rightarrow> nat option list" where
  "first_of_body table [] = [None]"
| "first_of_body table (y # rest) =
     join (filter (\<lambda>x. x \<noteq> None) (table ! y))
       (if List.member (table ! y) None then first_of_body table rest else [])"

text \<open>
  Modelled from the spec: one round of the FIRST computation (section 4.C; the item-set
  constructor is missing): for a terminal \<open>X\<close> the set is \<open>{X}\<close>, for a non-terminal the
  union over its productions of FIRST of the body; and the iteration until no set
  changes.
\<close>

definition first_step :: "grammar_tables \<Rightarrow> nat option list list \<Rightarrow> nat option list list" where
  "first_step g table =
     map (\<lambda>x. if kind_of g x = Non_terminal
               then foldl (\<lambda>acc p. join acc (first_of_body table (body_of g p)))
                      (table ! x) (productions_of g x)
               else [Some x])
       [0 ..< length (tables_symbols g)]"

text \<open>
  Modelled from the spec: the FIRST sets, by fixed-point iteration until no set changes
  (section 4.C; the item-set constructor is missing).
\<close>

definition first_sets :: "grammar_tables \<Rightarrow> nat option list list option" where
  "first_sets g = fixpoint (first_step g) (map (\<lambda>x. []) (tables_symbols g))"

subsection \<open>Item sets\<close>

text \<open>
  Modelled from the spec: an item is a production with a dot position (section 3); the
  symbol after the dot, if the dot is not at the end (the item-set constructor is
  missing).
\<close>

type_synonym lr_item = "nat \<times> nat"

text \<open>
  Modelled from the spec: the symbol immediately after the dot of an item, if the dot is
  not at the end (the item-set constructor is missing).
\<close>

definition after_dot :: "grammar_tables \<Rightarrow> lr_item \<Rightarrow> nat option" where
  "after_dot g it =
     (if snd it < length (body_of g (fst it)) then Some (body_of g (fst it) ! snd it) else None)"

text \<open>
  Modelled from the spec: closure (section 4.C; the item-set constructor is missing). For
  every item with the dot before \<open>B\<close> and every production of \<open>B\<close>, the item of that
  production with the dot at the start is added; iterated to a fixed point.
\<close>

definition closure_step :: "grammar_tables \<Rightarrow> lr_item list \<Rightarrow> lr_item list" where
  "closure_step g items =
     foldl (\<lambda>acc it. case after_dot g it of
                        None \<Rightarrow> acc
                      | Some x \<Rightarrow> join acc (map (\<lambda>p. (p, 0)) (productions_of g x)))
       items items"

text \<open>
  Modelled from the spec: the closure of an item set, iterated to a fixed point (section
  4.C; the item-set constructor is missing).
\<close>

definition closure :: "grammar_tables \<Rightarrow> lr_item list \<Rightarrow> lr_item list option" where
  "closure g items = fixpoint (closure_step g) items"

text \<open>
  Modelled from the spec: goto (section 4.C; the item-set constructor is missing): the
  closure of the items of the set with the dot moved over \<open>X\<close>.
\<close>

definition advance :: "grammar_tables \<Rightarrow> lr_item list \<Rightarrow> nat \<Rightarrow> lr_item list" where
  "advance g items x =
     map (\<lambda>it. (fst it, snd it + 1)) (filter (\<lambda>it. after_dot g it = Some x) items)"

text \<open>
  Modelled from the spec: goto as the closure of the advanced items (section 4.C; the
  item-set constructor is missing).
\<close>

definition goto :: "grammar_tables \<Rightarrow> lr_item list \<Rightarrow> nat \<Rightarrow> lr_item list option" where
  "goto g items x = closure g (advance g items x)"

text \<open>
  Modelled from the spec: kernel items (section 3; the item-set constructor is missing):
  the items with the dot not at the start, and the augmented start production with the dot
  at the start. A state is known by its kernel.
\<close>

definition is_kernel :: "lr_item \<Rightarrow> bool" where
  "is_kernel it = (snd it > 0 \<or> fst it = 0)"

text \<open>
  Modelled from the spec: the kernel signature of a state, its kernel items (section 3;
  the item-set constructor is missing).
\<close>

definition kernel :: "lr_item list \<Rightarrow> lr_item list" where
  "kernel items = filter is_kernel items"

text \<open>
  Modelled from the spec: the state graph (section 4.C; the item-set constructor is
  missing): the states in discovery order, each an item set, and the transitions
  \<open>(from, symbol, to)\<close>.
\<close>

record automaton =
  automaton_states :: "lr_item list list"
  automaton_transitions :: "(nat \<times> nat \<times> nat) list"

text \<open>
  Modelled from the spec: one goto of one state (section 4.C; the item-set constructor is
  missing): a state with that kernel is reused, or a new state is made.
\<close>

fun find_state :: "lr_item list list \<Rightarrow> lr_item list \<Rightarrow> nat option" where
  "find_state [] k = None"
| "find_state (s # rest) k =
     (if same_set (kernel s) k then Some 0 else map_option Suc (find_state rest k))"

text \<open>
  Modelled from the spec: the goto of state \<open>i\<close> on symbol \<open>x\<close>
  joins the graph (section 4.C; the item-set constructor is missing): the transition
  goes to the state with that kernel signature, a new state if there is none.
\<close>

definition add_transition :: "grammar_tables \<Rightarrow> nat \<Rightarrow> automaton \<Rightarrow> nat \<Rightarrow> automaton option" where
  "add_transition g i a x =
     (case goto g (automaton_states a ! i) x of
        None \<Rightarrow> None
      | Some target \<Rightarrow>
          (case find_state (automaton_states a) (kernel target) of
             Some j \<Rightarrow>
               Some (a\<lparr>automaton_transitions := automaton_transitions a @ [(i, x, j)]\<rparr>)
           | None \<Rightarrow>
               Some \<lparr>automaton_states = automaton_states a @ [target],
                     automaton_transitions =
                       automaton_transitions a @ [(i, x, length (automaton_states a))]\<rparr>))"

text \<open>
  Modelled from the spec: a pass over a list of steps each of which may have no value
  (the straight-line pipeline of section 5; classes missing).
\<close>

fun fold_option :: "('b \<Rightarrow> 'a \<Rightarrow> 'b option) \<Rightarrow> 'b \<Rightarrow> 'a list \<Rightarrow> 'b option" where
  "fold_option f acc [] = Some acc"
| "fold_option f acc (x # xs) =
     (case f acc x of None \<Rightarrow> None | Some acc' \<Rightarrow> fold_option f acc' xs)"

text \<open>
  Modelled from the spec: the symbols after a dot in a state, in the order of their
  indices (section 4.C; the item-set constructor is missing).
\<close>

definition symbols_after_dot :: "grammar_tables \<Rightarrow> lr_item list \<Rightarrow> nat list" where
  "symbols_after_dot g items =
     filter (\<lambda>x. List.member (map (after_dot g) items) (Some x))
       [0 ..< length (tables_symbols g)]"

text \<open>
  Modelled from the spec: the construction of the states (section 4.C; the item-set
  constructor is missing): every state, in discovery order, gets its gotos, until no new
  state is discovered.
\<close>

partial_function (option) explore :: "grammar_tables \<Rightarrow> automaton \<Rightarrow> nat \<Rightarrow> automaton option" where
  "explore g a i =
     (if i < length (automaton_states a)
      then (case fold_option (add_transition g i) a (symbols_after_dot g (automaton_states a ! i)) of
              None \<Rightarrow> None
            | Some a' \<Rightarrow> explore g a' (i + 1))
      else Some a)"

declare explore.simps [code]

text \<open>
  Modelled from the spec: the states start from the closure of the augmented start item
  (section 4.C; the item-set constructor is missing).
\<close>

definition item_sets :: "grammar_tables \<Rightarrow> automaton option" where
  "item_sets g =
     (case closure g [(0, 0)] of
        None \<Rightarrow> None
      | Some start \<Rightarrow> explore g \<lparr>automaton_states = [start], automaton_transitions = []\<rparr> 0)"

subsection \<open>Lookaheads\<close>

text \<open>
  Modelled from the spec: the marker lookahead \<open>#\<close> of section 4.D (the lookahead
  propagator is missing). It is no symbol of the grammar: it is the first number that is
  not an index.
\<close>

definition marker :: "grammar_tables \<Rightarrow> nat" where
  "marker g = length (tables_symbols g)"

text \<open>
  Modelled from the spec: lookahead sets attached to keys (items, or items in states),
  and the addition of lookaheads to the set of a key (the lookahead propagator is
  missing).
\<close>

fun add_to :: "'k \<Rightarrow> nat list \<Rightarrow> ('k \<times> nat list) list \<Rightarrow> ('k \<times> nat list) list" where
  "add_to k las [] = [(k, join [] las)]"
| "add_to k las ((k', l) # rest) =
     (if k = k' then (k', join l las) # rest else (k', l) # add_to k las rest)"

text \<open>
  Modelled from the spec: the lookahead set of a key, empty if it has none yet (the
  lookahead propagator is missing).
\<close>

definition lookaheads_of :: "('k \<times> nat list) list \<Rightarrow> 'k \<Rightarrow> nat list" where
  "lookaheads_of table k = (case map_of table k of None \<Rightarrow> [] | Some l \<Rightarrow> l)"

text \<open>
  Modelled from the spec: the LR(1) closure used by section 4.D (the lookahead propagator
  is missing). For an item \<open>[A \<rightarrow> \<alpha> . B \<beta>, a]\<close> and a production \<open>B \<rightarrow> \<gamma>\<close>, the
  item \<open>[B \<rightarrow> . \<gamma>, b]\<close> is added for every \<open>b\<close> in FIRST of \<open>\<beta> a\<close>; iterated to a fixed
  point.
\<close>

definition first_after :: "grammar_tables \<Rightarrow> nat option list list \<Rightarrow> lr_item \<Rightarrow> nat list \<Rightarrow> nat list" where
  "first_after g table it las =
     (let f = first_of_body table (drop (snd it + 1) (body_of g (fst it)))
      in join (map the (filter (\<lambda>x. x \<noteq> None) f)) (if List.member f None then las else []))"

text \<open>
  Modelled from the spec: one round of the LR(1) closure of section 4.D (the lookahead
  propagator is missing).
\<close>

definition closure1_step ::
  "grammar_tables \<Rightarrow> nat option list list \<Rightarrow> (lr_item \<times> nat list) list \<Rightarrow> (lr_item \<times> nat list) list" where
  "closure1_step g table items =
     foldl (\<lambda>acc (it, las).
              case after_dot g it of
                None \<Rightarrow> acc
              | Some x \<Rightarrow>
                  foldl (\<lambda>acc' p. add_to (p, 0) (first_after g table it las) acc')
                    acc (productions_of g x))
       items items"

text \<open>
  Modelled from the spec: the LR(1) closure of section 4.D, iterated to a fixed point
  (the lookahead propagator is missing).
\<close>

definition closure1 ::
  "grammar_tables \<Rightarrow> nat option list list \<Rightarrow> (lr_item \<times> nat list) list \<Rightarrow> (lr_item \<times> nat list) list option" where
  "closure1 g table items = fixpoint (closure1_step g table) items"

text \<open>
  Modelled from the spec: the goto relation of the state graph (the item-set constructor
  is missing).
\<close>

definition transition :: "automaton \<Rightarrow> nat \<Rightarrow> nat \<Rightarrow> nat option" where
  "transition a i x = map_of (map (\<lambda>(i', x', j). ((i', x'), j)) (automaton_transitions a)) (i, x)"

text \<open>
  Modelled from the spec: what section 4.D determines for one kernel item \<open>K\<close> of one
  state \<open>I\<close> (the lookahead propagator is missing). In the closure of \<open>[K, #]\<close>, a
  lookahead other than the marker on an item whose dot can advance is spontaneously
  generated for the advanced item in the successor state; the marker there gives a
  propagation edge from \<open>K\<close> to that item.
\<close>

type_synonym slot = "nat \<times> lr_item"

text \<open>
  Modelled from the spec: the spontaneously generated lookaheads and the propagation
  edges of section 4.D (the lookahead propagator is missing).
\<close>

record links =
  links_spontaneous :: "(slot \<times> nat list) list"
  links_edges :: "(slot \<times> slot) list"

text \<open>
  Modelled from the spec: the spontaneous lookaheads and propagation edges of one kernel
  item of one state, section 4.D steps 1 and 2 (the lookahead propagator is missing).
\<close>

definition kernel_links ::
  "grammar_tables \<Rightarrow> nat option list list \<Rightarrow> automaton \<Rightarrow> links \<Rightarrow> slot \<Rightarrow> links option" where
  "kernel_links g table a l k =
     (case closure1 g table [(snd k, [marker g])] of
        None \<Rightarrow> None
      | Some items \<Rightarrow>
          Some (foldl (\<lambda>acc (it, las).
                  case after_dot g it of
                    None \<Rightarrow> acc
                  | Some x \<Rightarrow>
                      (case transition a (fst k) x of
                         None \<Rightarrow> acc
                       | Some j \<Rightarrow>
                           \<lparr>links_spontaneous =
                              add_to (j, (fst it, snd it + 1))
                                (filter (\<lambda>t. t \<noteq> marker g) las) (links_spontaneous acc),
                            links_edges =
                              (if List.member las (marker g)
                               then remember (k, (j, (fst it, snd it + 1))) (links_edges acc)
                               else links_edges acc)\<rparr>))
                l items))"

text \<open>
  Modelled from the spec: the kernel items of all states (the lookahead propagator is
  missing).
\<close>

definition slots :: "automaton \<Rightarrow> slot list" where
  "slots a =
     concat (map (\<lambda>(s, i). map (\<lambda>k. (i, k)) (kernel s))
               (zip (automaton_states a) [0 ..< length (automaton_states a)]))"

text \<open>
  Modelled from the spec: section 4.D steps 1 and 2 for each state and each of its
  kernel items (the lookahead propagator is missing).
\<close>

definition all_links :: "grammar_tables \<Rightarrow> nat option list list \<Rightarrow> automaton \<Rightarrow> links option" where
  "all_links g table a =
     fold_option (kernel_links g table a) \<lparr>links_spontaneous = [], links_edges = []\<rparr> (slots a)"

text \<open>
  Modelled from the spec: the propagation of section 4.D (the lookahead propagator is
  missing). The augmented start item is seeded with \<open>{$}\<close>, every item with its
  spontaneously generated lookaheads; then lookaheads are pushed along the edges until no
  edge adds a new one.
\<close>

definition seed :: "automaton \<Rightarrow> links \<Rightarrow> (slot \<times> nat list) list" where
  "seed a l =
     foldl (\<lambda>acc (k, las). add_to k las acc)
       (add_to (0, (0, 0)) [end_index] (map (\<lambda>k. (k, [])) (slots a)))
       (links_spontaneous l)"

text \<open>
  Modelled from the spec: one round of pushing lookaheads along the propagation edges
  (section 4.D; the lookahead propagator is missing).
\<close>

definition propagate_step :: "(slot \<times> slot) list \<Rightarrow> (slot \<times> nat list) list \<Rightarrow> (slot \<times> nat list) list" where
  "propagate_step edges table =
     foldl (\<lambda>acc (source, target). add_to target (lookaheads_of acc source) acc) table edges"

text \<open>
  Modelled from the spec: propagation to a fixed point, until no edge adds a new
  lookahead to its destination (section 4.D; the lookahead propagator is missing).
\<close>

definition propagate :: "automaton \<Rightarrow> links \<Rightarrow> (slot \<times> nat list) list option" where
  "propagate a l = fixpoint (propagate_step (links_edges l)) (seed a l)"

text \<open>
  Modelled from the spec: the items of a state with their lookahead sets (the lookahead
  propagator is missing): the kernel items with the propagated sets, and the items of the
  closure with the sets the LR(1) closure gives them.
\<close>

definition state_items ::
  "grammar_tables \<Rightarrow> nat option list list \<Rightarrow> automaton \<Rightarrow> (slot \<times> nat list) list \<Rightarrow> nat \<Rightarrow>
     (lr_item \<times> nat list) list option" where
  "state_items g table a la i =
     closure1 g table (map (\<lambda>k. (k, lookaheads_of la (i, k))) (kernel (automaton_states a ! i)))"

subsection \<open>The table compiler\<close>

text \<open>Modelled from the spec: the actions of section 3 (the table compiler is missing).\<close>

datatype action = Shift nat | Reduce nat | Accept | Error_action

text \<open>
  Modelled from the spec: the candidates for one cell (state, terminal) of section 4.E
  (the table compiler is missing): a shift for an item with the dot before the terminal,
  a reduce for every item with the dot at the end and the terminal in its lookahead set,
  accept on \<open>$\<close> for the item \<open>[S' \<rightarrow> S . $, {$}]\<close>.
\<close>

definition candidates ::
  "grammar_tables \<Rightarrow> automaton \<Rightarrow> nat \<Rightarrow> (lr_item \<times> nat list) list \<Rightarrow> nat \<Rightarrow> action list" where
  "candidates g a i items t =
     (if (kind_of g t = Terminal \<or> kind_of g t = Error_kind)
         \<and> List.member (map (\<lambda>(it, las). after_dot g it) items) (Some t)
      then (case transition a i t of None \<Rightarrow> [] | Some j \<Rightarrow> [Shift j])
      else [])
     @ map (\<lambda>(it, las). Reduce (fst it))
         (filter (\<lambda>(it, las). after_dot g it = None \<and> List.member las t) items)
     @ (if t = end_index \<and> List.member (lookaheads_of items (0, 1)) end_index
           \<and> after_dot g (0, 1) = Some end_index
        then [Accept] else [])"

text \<open>
  Modelled from the spec: the precedence of a terminal and of a production (its explicit
  or inherited precedence symbol), 0 for unspecified (the table compiler is missing).
\<close>

definition precedence_of :: "grammar_tables \<Rightarrow> nat \<Rightarrow> nat" where
  "precedence_of g t = symbol_precedence (tables_symbols g ! t)"

text \<open>
  Modelled from the spec: the precedence of a reduce production, that of its explicit or
  inherited precedence symbol, 0 without one (section 4.E; the table compiler is
  missing).
\<close>

definition production_precedence :: "grammar_tables \<Rightarrow> nat \<Rightarrow> nat" where
  "production_precedence g p =
     (case production_precedence_symbol (tables_productions g ! p) of
        None \<Rightarrow> 0
      | Some s \<Rightarrow> precedence_of g s)"

text \<open>
  Modelled from the spec: the associativity of the precedence symbol of a reducing
  production (section 4.E; the table compiler is missing).
\<close>

definition production_associativity :: "grammar_tables \<Rightarrow> nat \<Rightarrow> associativity" where
  "production_associativity g p =
     (case production_precedence_symbol (tables_productions g ! p) of
        None \<Rightarrow> Assoc_none
      | Some s \<Rightarrow> symbol_associativity (tables_symbols g ! s))"

text \<open>
  Modelled from the spec: the resolution of a shift/reduce conflict on a terminal, section
  4.E rule 1 (the table compiler is missing). The result is the action kept and whether
  the conflict is unresolved.
\<close>

definition shift_reduce :: "grammar_tables \<Rightarrow> nat \<Rightarrow> nat \<Rightarrow> nat \<Rightarrow> action \<times> bool" where
  "shift_reduce g t target p =
     (if precedence_of g t = 0 \<or> production_precedence g p = 0 then (Shift target, True)
      else if precedence_of g t > production_precedence g p then (Shift target, False)
      else if production_precedence g p > precedence_of g t then (Reduce p, False)
      else (case production_associativity g p of
              Assoc_left \<Rightarrow> (Reduce p, False)
            | Assoc_right \<Rightarrow> (Shift target, False)
            | Assoc_none \<Rightarrow> (Shift target, True)))"

text \<open>
  Modelled from the spec: the resolution of two candidates for one cell, section 4.E (the
  table compiler is missing). A reduce/reduce conflict is unresolved and keeps the
  production with the lower index. The spec names no other conflict; two different
  candidates of any other kind count here as an unresolved conflict that keeps the first.
\<close>

fun resolve_conflict :: "grammar_tables \<Rightarrow> nat \<Rightarrow> action \<Rightarrow> action \<Rightarrow> action \<times> bool" where
  "resolve_conflict g t Error_action candidate = (candidate, False)"
| "resolve_conflict g t (Shift target) (Reduce p) = shift_reduce g t target p"
| "resolve_conflict g t (Reduce p) (Shift target) = shift_reduce g t target p"
| "resolve_conflict g t (Reduce p) (Reduce q) =
     (if p = q then (Reduce p, False) else (Reduce (min p q), True))"
| "resolve_conflict g t current candidate =
     (if current = candidate then (current, False) else (current, True))"

text \<open>
  Modelled from the spec: an unresolved conflict as it is reported, with its operands
  (section 6, \<open>PARSE_TABLE_CONFLICT\<close>; the table compiler is missing): the state, the
  terminal and the two candidates.
\<close>

record conflict =
  conflict_state :: nat
  conflict_terminal :: nat
  conflict_kept :: action
  conflict_other :: action

text \<open>
  Modelled from the spec: one cell of the action table (section 4.E; the table compiler is
  missing): the candidates are resolved one after the other, and the unresolved conflicts
  are collected.
\<close>

definition compile_cell :: "grammar_tables \<Rightarrow> nat \<Rightarrow> nat \<Rightarrow> action list \<Rightarrow> action \<times> conflict list" where
  "compile_cell g i t cs =
     foldl (\<lambda>(current, found) c.
              case resolve_conflict g t current c of
                (kept, unresolved) \<Rightarrow>
                  (kept,
                   if unresolved
                   then found @ [\<lparr>conflict_state = i, conflict_terminal = t,
                                   conflict_kept = kept,
                                   conflict_other = (if kept = c then current else c)\<rparr>]
                   else found))
       (Error_action, []) cs"

text \<open>
  Modelled from the spec: a row of the action table and a row of the goto table, dense
  over the symbol indices (the table compiler is missing), with the unresolved conflicts
  of the state.
\<close>

definition compile_state ::
  "grammar_tables \<Rightarrow> automaton \<Rightarrow> nat \<Rightarrow> (lr_item \<times> nat list) list \<Rightarrow>
     action list \<times> nat option list \<times> conflict list" where
  "compile_state g a i items =
     (let cells = map (\<lambda>t. if kind_of g t = Non_terminal then (Error_action, [])
                            else compile_cell g i t (candidates g a i items t))
                    [0 ..< length (tables_symbols g)]
      in (map fst cells,
          map (\<lambda>x. if kind_of g x = Non_terminal then transition a i x else None)
            [0 ..< length (tables_symbols g)],
          concat (map snd cells)))"

text \<open>
  Modelled from the spec: the emitted artifact of section 6 (the table compiler is
  missing): symbol table, production table, action table, goto table, start state,
  end-of-input index, error index and the lexical-analyzer table, which the external
  collaborator of section 4.F returns.
\<close>

record artifact =
  artifact_symbols :: "symbol list"
  artifact_productions :: "production list"
  artifact_actions :: "action list list"
  artifact_gotos :: "nat option list list"
  artifact_start_state :: nat
  artifact_end_index :: nat
  artifact_error_index :: nat
  artifact_lexical :: "nat list list"

text \<open>
  Modelled from the spec: the pipeline from the finalized grammar to the tables and the
  unresolved conflicts (sections 2 and 4.E; the classes are missing). The lexical table is
  filled in afterwards.
\<close>

definition compile :: "grammar_tables \<Rightarrow> (artifact \<times> conflict list) option" where
  "compile g =
     do { table \<leftarrow> first_sets g;
          a \<leftarrow> item_sets g;
          l \<leftarrow> all_links g table a;
          la \<leftarrow> propagate a l;
          rows \<leftarrow> fold_option
                    (\<lambda>acc i. map_option (\<lambda>items. acc @ [compile_state g a i items])
                                (state_items g table a la i))
                    [] [0 ..< length (automaton_states a)];
          Some (\<lparr>artifact_symbols = tables_symbols g,
                 artifact_productions = tables_productions g,
                 artifact_actions = map fst rows,
                 artifact_gotos = map (\<lambda>r. fst (snd r)) rows,
                 artifact_start_state = 0,
                 artifact_end_index = end_index,
                 artifact_error_index = error_index,
                 artifact_lexical = []\<rparr>,
                concat (map (\<lambda>r. snd (snd r)) rows)) }"

subsection \<open>Warnings\<close>

text \<open>
  Modelled from the spec: whether a symbol is referenced (sections 4.F and 7; the classes
  are missing): it stands in the body of a production, the augmented one included, or is
  the precedence symbol of one.
\<close>

definition referenced :: "grammar_tables \<Rightarrow> nat \<Rightarrow> bool" where
  "referenced g x =
     list_ex (\<lambda>p. List.member (production_body p) x \<or> production_precedence_symbol p = Some x)
       (tables_productions g)"

text \<open>
  Modelled from the spec: the unreferenced symbols of a grammar, each a warning (sections
  4.F and 7; the classes are missing). The reserved symbols are not named by the grammar
  and are left out.
\<close>

definition unreferenced_symbols :: "grammar_tables \<Rightarrow> nat list" where
  "unreferenced_symbols g =
     filter (\<lambda>x. \<not> referenced g x) [4 ..< length (tables_symbols g)]"

text \<open>
  Modelled from the spec: the symbols that can be reached from the start symbol (section
  4.C names unreachable non-terminals; the item-set constructor is missing): the start
  symbol, and the body of every production whose head is reached.
\<close>

definition reachable_step :: "grammar_tables \<Rightarrow> nat list \<Rightarrow> nat list" where
  "reachable_step g reached =
     foldl (\<lambda>acc p. if List.member reached (production_head p)
                     then join acc (production_body p) else acc)
       reached (tables_productions g)"

text \<open>
  Modelled from the spec: the reachable symbols as a fixed point (section 4.C; the
  item-set constructor is missing).
\<close>

definition reachable :: "grammar_tables \<Rightarrow> nat list option" where
  "reachable g = fixpoint (reachable_step g) [start_index]"

text \<open>
  Modelled from the spec: the non-terminals that derive a string of terminals (section 4.C
  names useless productions; the item-set constructor is missing): the head of every
  production whose body has only terminals and such non-terminals.
\<close>

definition productive_step :: "grammar_tables \<Rightarrow> nat list \<Rightarrow> nat list" where
  "productive_step g found =
     foldl (\<lambda>acc p. if list_all (\<lambda>x. kind_of g x \<noteq> Non_terminal \<or> List.member found x)
                          (production_body p)
                     then remember (production_head p) acc else acc)
       found (tables_productions g)"

text \<open>
  Modelled from the spec: the productive non-terminals as a fixed point (section 4.C; the
  item-set constructor is missing).
\<close>

definition productive :: "grammar_tables \<Rightarrow> nat list option" where
  "productive g = fixpoint (productive_step g) []"

text \<open>
  Modelled from the spec: the unreachable non-terminals (section 4.C; the item-set
  constructor is missing).
\<close>

definition unreachable_non_terminals :: "grammar_tables \<Rightarrow> nat list \<Rightarrow> nat list" where
  "unreachable_non_terminals g reached =
     filter (\<lambda>x. kind_of g x = Non_terminal \<and> \<not> List.member reached x)
       [0 ..< length (tables_symbols g)]"

text \<open>
  Modelled from the spec: the useless productions (sections 4.C and 7; the item-set
  constructor is missing): a production is useless when its head cannot be reached or a
  non-terminal of its body derives no string of terminals.
\<close>

definition useless_productions :: "grammar_tables \<Rightarrow> nat list \<Rightarrow> nat list \<Rightarrow> nat list" where
  "useless_productions g reached found =
     filter (\<lambda>i. \<not> List.member reached (production_head (tables_productions g ! i))
                 \<or> list_ex (\<lambda>x. kind_of g x = Non_terminal \<and> \<not> List.member found x)
                      (production_body (tables_productions g ! i)))
       [0 ..< length (tables_productions g)]"

subsection \<open>Reports, caps and the lexical collaborator\<close>

text \<open>
  Modelled from the spec: what the error collaborator receives (sections 6 and 7; the
  classes that report are missing). Errors: those of the front-end, the semantic errors,
  \<open>LEXICAL_CONFLICT\<close> and \<open>INTERNAL_LIMIT\<close>. Warnings: unreferenced symbols, unreachable
  non-terminals, useless productions and unresolved conflicts (\<open>PARSE_TABLE_CONFLICT\<close>).
\<close>

datatype diagnostic =
    Front_end report
  | Semantic semantic_error
  | Lexical_conflict nat nat
  | Internal_limit
  | Unreferenced_symbol string
  | Unreachable_non_terminal string
  | Useless_production nat
  | Parse_table_conflict conflict

text \<open>
  Modelled from the spec: the band of a report (section 7; the classes are missing):
  whether it is an error, which leaves no artifact, or a warning.
\<close>

fun is_error :: "diagnostic \<Rightarrow> bool" where
  "is_error (Front_end r) = True"
| "is_error (Semantic e) = True"
| "is_error (Lexical_conflict x y) = True"
| "is_error Internal_limit = True"
| "is_error (Unreferenced_symbol name) = False"
| "is_error (Unreachable_non_terminal name) = False"
| "is_error (Useless_production p) = False"
| "is_error (Parse_table_conflict c) = False"

text \<open>
  Modelled from the spec: the implementation-defined caps on states, symbols and
  productions (sections 6 and 7; the classes are missing). They are parameters of the
  generation.
\<close>

record limits =
  limit_states :: nat
  limit_symbols :: nat
  limit_productions :: nat

text \<open>
  Modelled from the spec: a pattern handed to the lexical builder (section 4.F; the adapter
  is missing): a literal or a regex, tagged with the index of its symbol.
\<close>

record lexical_pattern =
  pattern_text :: string
  pattern_kind :: lexeme_kind
  pattern_symbol :: nat

text \<open>
  Modelled from the spec: what the external lexical builder returns (section 4.F; it is a
  collaborator and no part of the repository): the lexical-analyzer table and the
  conflicts it reports, each between the symbols of two patterns.
\<close>

record lexical_result =
  lexical_table :: "nat list list"
  lexical_conflicts :: "(nat \<times> nat) list"

text \<open>
  Modelled from the spec: the external lexical builder (section 4.F), a parameter of the
  generation: from the terminal patterns and the whitespace patterns to its result.
\<close>

type_synonym lexical_builder = "lexical_pattern list \<Rightarrow> string list \<Rightarrow> lexical_result"

text \<open>
  Modelled from the spec: the patterns the adapter collects (section 4.F; the adapter is
  missing): every literal and regex terminal, in the order of the symbol table, which is
  the order of first appearance.
\<close>

definition lexical_patterns :: "grammar_tables \<Rightarrow> lexical_pattern list" where
  "lexical_patterns g =
     map (\<lambda>s. \<lparr>pattern_text = symbol_identifier s, pattern_kind = symbol_lexeme_kind s,
                pattern_symbol = symbol_index s\<rparr>)
       (filter (\<lambda>s. symbol_kind s = Terminal \<and> symbol_lexeme_kind s \<noteq> Null_lexeme)
          (tables_symbols g))"

subsection \<open>Generation\<close>

text \<open>
  Modelled from the spec: what the pipeline finds out about a grammar before the caps and
  the lexical collaborator come in (sections 2 and 7; the classes are missing): either the
  semantic errors, or the tables, the warnings of the grammar, the unresolved conflicts,
  and the patterns and whitespace patterns for the lexical builder.
\<close>

datatype analysis =
    Rejected "semantic_error list"
  | Analysed artifact "diagnostic list" "conflict list" "lexical_pattern list" "string list"

text \<open>
  Modelled from the spec: the warnings of a finalized grammar (sections 4.C, 4.F and 7;
  the classes are missing), in the order unreferenced symbols, unreachable non-terminals,
  useless productions.
\<close>

definition grammar_warnings :: "grammar_tables \<Rightarrow> diagnostic list option" where
  "grammar_warnings g =
     do { reached \<leftarrow> reachable g;
          found \<leftarrow> productive g;
          Some (map (\<lambda>x. Unreferenced_symbol (symbol_identifier (tables_symbols g ! x)))
                  (unreferenced_symbols g)
                @ map (\<lambda>x. Unreachable_non_terminal (symbol_identifier (tables_symbols g ! x)))
                    (unreachable_non_terminals g reached)
                @ map Useless_production (useless_productions g reached found)) }"

text \<open>
  Modelled from the spec: the analysis of the calls the builder has received (sections 2
  and 7; the classes are missing). With a semantic error table construction is skipped.
  It has no value if a fixed point is never reached.
\<close>

definition analyse :: "event list \<Rightarrow> analysis option" where
  "analyse events =
     (case finalize (build events) of
        (es, None) \<Rightarrow> Some (Rejected es)
      | (es, Some g) \<Rightarrow>
          do { warnings \<leftarrow> grammar_warnings g;
               (art, conflicts) \<leftarrow> compile g;
               Some (Analysed art warnings conflicts (lexical_patterns g)
                       (builder_whitespace (build events))) })"

text \<open>
  Modelled from the spec: the result of the top-level generate operation (section 7; the
  classes are missing): the artifact, if any, the error count, the warning count, the
  count of unresolved conflicts, and the reports delivered to the error collaborator, in
  order.
\<close>

record generation =
  generation_artifact :: "artifact option"
  generation_errors :: nat
  generation_warnings :: nat
  generation_conflicts :: nat
  generation_reports :: "diagnostic list"

text \<open>
  Modelled from the spec: a generation that ends with errors (section 7; the classes are
  missing): the errors are reported and counted and there is no artifact.
\<close>

definition failed :: "diagnostic list \<Rightarrow> generation" where
  "failed reports =
     \<lparr>generation_artifact = None, generation_errors = length reports,
      generation_warnings = 0, generation_conflicts = 0, generation_reports = reports\<rparr>"

text \<open>
  Modelled from the spec: the end of the pipeline (sections 4.F and 7; the classes are
  missing). Semantic errors are reported. A table over a cap is reported as
  \<open>INTERNAL_LIMIT\<close>; the cap is tested on the finished tables, which gives the report that
  stopping the construction at the cap gives. Otherwise the warnings and the unresolved
  conflicts are reported, the lexical builder is called, and its conflicts are reported as
  errors; without an error the artifact is emitted with the lexical table.
\<close>

definition finish :: "limits \<Rightarrow> lexical_builder \<Rightarrow> analysis \<Rightarrow> generation" where
  "finish caps lexical a =
     (case a of
        Rejected es \<Rightarrow> failed (map Semantic es)
      | Analysed art warnings conflicts patterns whitespace \<Rightarrow>
          if length (artifact_actions art) > limit_states caps
             \<or> length (artifact_symbols art) > limit_symbols caps
             \<or> length (artifact_productions art) > limit_productions caps
          then failed [Internal_limit]
          else
            \<lparr>generation_artifact =
               (if lexical_conflicts (lexical patterns whitespace) = []
                then Some (art\<lparr>artifact_lexical := lexical_table (lexical patterns whitespace)\<rparr>)
                else None),
             generation_errors = length (lexical_conflicts (lexical patterns whitespace)),
             generation_warnings = length warnings + length conflicts,
             generation_conflicts = length conflicts,
             generation_reports =
               warnings @ map Parse_table_conflict conflicts
               @ map (\<lambda>(x, y). Lexical_conflict x y)
                   (lexical_conflicts (lexical patterns whitespace))\<rparr>)"

text \<open>
  Modelled from the spec: the top-level generate operation on the calls the builder has
  received (section 7; the classes are missing), with the caps and the lexical builder as
  parameters.
\<close>

definition generate :: "limits \<Rightarrow> lexical_builder \<Rightarrow> event list \<Rightarrow> generation option" where
  "generate caps lexical events = map_option (finish caps lexical) (analyse events)"

text \<open>
  Modelled from the spec: generation from grammar source (the caller of
  \<open>GrammarParser::parse\<close> is missing). The front-end of the first section drives the
  builder and reports to the error collaborator; with a syntax error there is no table
  construction and no artifact (section 7, band 1).
\<close>

definition generate_from_source :: "limits \<Rightarrow> lexical_builder \<Rightarrow> string \<Rightarrow> generation option" where
  "generate_from_source caps lexical source =
     (case parse GrammarParser source (Some []) [] of
        None \<Rightarrow> None
      | Some (n, s) \<Rightarrow>
          if n \<noteq> 0
          then Some ((failed (map Front_end (reported (Some (n, s)))))
                       \<lparr>generation_errors := nat n\<rparr>)
          else generate caps lexical (grammar s))"

subsection \<open>Scenarios of the spec\<close>

text \<open>A literal of the grammar source: the text between single quotes.\<close>

definition single_quoted :: "string \<Rightarrow> string" where
  "single_quoted s = [CHR 0x27] @ s @ [CHR 0x27]"



text \<open>
  The grammar source of scenario 2 of the spec (dangling else without precedence), with
  a literal for each token and a production for \<open>expr\<close>.
\<close>

definition scenario_2 :: string where
  "scenario_2 =
     ''S { stmt: '' @ single_quoted ''if'' @ '' expr stmt | ''
     @ single_quoted ''if'' @ '' expr stmt '' @ single_quoted ''else'' @ '' stmt | ''
     @ single_quoted ''other'' @ '' ; expr: '' @ single_quoted ''e'' @ '' ; }''"




text \<open>A lexical builder that reports no conflict, whatever the patterns.\<close>

definition quiet_lexical_builder :: lexical_builder where
  "quiet_lexical_builder patterns whitespace = \<lparr>lexical_table = [], lexical_conflicts = []\<rparr>"

text \<open>Caps that the grammars of the scenarios stay under.\<close>

definition wide_limits :: limits where
  "wide_limits = \<lparr>limit_states = 1000, limit_symbols = 1000, limit_productions = 1000\<rparr>"

section \<open>The claims\<close>

subsection \<open>C1: a literal that runs to the end of the input\<close>

lemma unterminated_at_end_of_input:
  "outcome (parse GrammarParser (''G { a : '' @ [CHR 0x27] @ ''x ; }'') (Some []) []) =
     Some (3,
       [Grammar ''G'', Production ''a'' 1, Literal ''x ; }'' 1, EndExpression 1, EndProduction],
       Some [Report 1 0 LALR_ERROR_SYNTAX (expected_not_found [CHR 0x27]),
             Report 1 0 LALR_ERROR_SYNTAX (expected_not_found '';''),
             Report 1 0 LALR_ERROR_SYNTAX (expected_not_found ''}'')])"
  by code_simp

text \<open>
  C1, as the code has it. For the source \<open>G { a : 'x ; }\<close> the scan of the literal
  runs to the end of the input and \<open>match_literal\<close> takes the branch \<open>position == end_\<close>:
  \<open>expect\<close> misses the closing quote and reports \<open>LALR_ERROR_SYNTAX\<close> at line 1, the
  literal's line, and the two following \<open>expect\<close> calls miss \<open>;\<close> and \<open>}\<close>. So \<open>parse\<close>,
  on any parser object, returns 3 and reports three syntax errors at line 1, none of them
  \<open>LALR_ERROR_UNTERMINATED_LITERAL\<close>; and no artifact is produced, whatever the caps and
  the lexical builder: with a syntax error there is no table construction (section 7 of
  the spec).
\<close>

theorem parse_unterminated_literal_at_end:
  "map_option (\<lambda>(n, events, reports). (n, reports))
     (outcome (parse p (''G { a : '' @ [CHR 0x27] @ ''x ; }'') (Some []) [])) =
     Some (3, Some [Report 1 0 LALR_ERROR_SYNTAX (expected_not_found [CHR 0x27]),
                    Report 1 0 LALR_ERROR_SYNTAX (expected_not_found '';''),
                    Report 1 0 LALR_ERROR_SYNTAX (expected_not_found ''}'')])
   \<and> map_option generation_artifact
       (generate_from_source caps lexical (''G { a : '' @ [CHR 0x27] @ ''x ; }'')) = Some None"
proof -
  have "outcome (parse p (''G { a : '' @ [CHR 0x27] @ ''x ; }'') (Some []) []) =
     Some (3,
       [Grammar ''G'', Production ''a'' 1, Literal ''x ; }'' 1, EndExpression 1, EndProduction],
       Some [Report 1 0 LALR_ERROR_SYNTAX (expected_not_found [CHR 0x27]),
             Report 1 0 LALR_ERROR_SYNTAX (expected_not_found '';''),
             Report 1 0 LALR_ERROR_SYNTAX (expected_not_found ''}'')])"
    using parse_any_parser [of p _ _ _ GrammarParser] unterminated_at_end_of_input by simp
  then have 1: "map_option (\<lambda>(n, events, reports). (n, reports))
     (outcome (parse p (''G { a : '' @ [CHR 0x27] @ ''x ; }'') (Some []) [])) =
     Some (3, Some [Report 1 0 LALR_ERROR_SYNTAX (expected_not_found [CHR 0x27]),
                    Report 1 0 LALR_ERROR_SYNTAX (expected_not_found '';''),
                    Report 1 0 LALR_ERROR_SYNTAX (expected_not_found ''}'')])"
    by simp
  from unterminated_at_end_of_input obtain s
    where "parse GrammarParser (''G { a : '' @ [CHR 0x27] @ ''x ; }'') (Some []) [] = Some (3, s)"
    by (auto simp: outcome_def)
  then have 2: "map_option generation_artifact
       (generate_from_source caps lexical (''G { a : '' @ [CHR 0x27] @ ''x ; }'')) = Some None"
    by (simp add: generate_from_source_def failed_def)
  from 1 2 show ?thesis by simp
qed

theorem parse_unterminated_literal_at_end_witness:
  "map_option (\<lambda>(n, events, reports). (n, reports))
     (outcome (parse (GrammarParser\<lparr>lexeme := ''old'', line := 7, errors := 2\<rparr>)
        (''G { a : '' @ [CHR 0x27] @ ''x ; }'') (Some []) [])) =
     Some (3, Some [Report 1 0 LALR_ERROR_SYNTAX (expected_not_found [CHR 0x27]),
                    Report 1 0 LALR_ERROR_SYNTAX (expected_not_found '';''),
                    Report 1 0 LALR_ERROR_SYNTAX (expected_not_found ''}'')])
   \<and> map_option generation_artifact
       (generate_from_source wide_limits quiet_lexical_builder
          (''G { a : '' @ [CHR 0x27] @ ''x ; }'')) = Some None"
  by (rule parse_unterminated_literal_at_end)

text \<open>
  The claim as stated fails: no \<open>LALR_ERROR_UNTERMINATED_LITERAL\<close> is reported for this
  source.
\<close>

theorem parse_unterminated_literal_at_end_counterexample:
  "LALR_ERROR_UNTERMINATED_LITERAL \<notin>
     set (map report_code
       (reported (parse GrammarParser (''G { a : '' @ [CHR 0x27] @ ''x ; }'') (Some []) [])))"
  by code_simp

subsection \<open>C2: which errors move the pointer to the end of the input\<close>

text \<open>
  Every error that \<open>expect\<close> raises (a missing \<open>;\<close>, \<open>]\<close>, \<open>}\<close>, \<open>:\<close>, \<open>{\<close> or closing
  quote) sets \<open>position_ = end_\<close> before it is reported: one error is counted and reported
  as \<open>LALR_ERROR_SYNTAX\<close>, and from then on no identifier, literal, regular expression or
  keyword matches and the state stays as it is; only \<open>match_end\<close> succeeds.
\<close>

lemma expect_advances_to_end:
  assumes "expect lx s = Some (False, s')"
  shows "position s' = [] \<and> errors s' = increment (errors s) \<and>
    error_policy s' =
      map_option (\<lambda>log. log @ [Report (line s') 0 LALR_ERROR_SYNTAX (expected_not_found lx)])
        (error_policy s) \<and>
    match_identifier s' = Some (False, s') \<and>
    match_literal s' = Some (False, s') \<and>
    match_regex s' = Some (False, s') \<and>
    (\<forall>keyword. keyword \<noteq> [] \<longrightarrow> match keyword s' = Some (False, s')) \<and>
    match_end s' = Some (True, s')"
proof -
  from assms obtain b s1 where m0: "match lx s = Some (b, s1)"
    and r: "(if b then Some (True, s1)
             else Some (False, error (line s1) 0 LALR_ERROR_SYNTAX (expected_not_found lx)
                    (s1\<lparr>position := []\<rparr>))) = Some (False, s')"
    by (auto simp: expect_def bind_eq_Some_conv)
  from r have b: "\<not> b"
    and s': "s' = error (line s1) 0 LALR_ERROR_SYNTAX (expected_not_found lx) (s1\<lparr>position := []\<rparr>)"
    by (cases b; simp)+
  from m0 b obtain s0 where w: "match_whitespace_and_comments s = Some s0"
    and m: "match_without_skipping_whitespace lx s0 = (False, s1)"
    by (auto simp: match_def bind_eq_Some_conv)
  from m have s1: "s1 = s0" by (rule match_without_skipping_whitespace_False)
  from w have f: "s0 = s\<lparr>position := position s0, line := line s0\<rparr>"
    by (rule match_whitespace_and_comments_frame)
  have e: "errors s0 = errors s" "error_policy s0 = error_policy s"
    by (subst f, simp)+
  have p: "position s' = []" by (simp add: s')
  have "errors s' = increment (errors s)"
    by (simp add: s' s1 error_def e)
  moreover have "error_policy s' =
      map_option (\<lambda>log. log @ [Report (line s') 0 LALR_ERROR_SYNTAX (expected_not_found lx)])
        (error_policy s)"
    by (simp add: s' s1 error_def e)
  moreover have "match_end s' = Some (True, s')"
    using p by (simp add: match_end_def match_whitespace_and_comments_end)
  ultimately show ?thesis
    using p by (simp add: match_at_end match_identifier_at_end match_literal_at_end
        match_regex_at_end)
qed

text \<open>
  C2. The other hard error does not move the pointer. When the scan of a literal stops at
  a newline, \<open>match_literal\<close> reports \<open>LALR_ERROR_UNTERMINATED_LITERAL\<close> and returns false
  with \<open>position_\<close> behind the opening quote, so the input after the error is still
  matched: on \<open>'x\<close>, newline, \<open>;\<close> the next \<open>match_identifier\<close> takes \<open>x\<close>, and in the
  grammar \<open>G { a : 'x y\<close>, newline, \<open>' ; }\<close> the body of the literal reaches the builder as
  the identifiers \<open>x\<close> and \<open>y\<close>, followed by a literal that runs from the closing quote to
  the end of the input.
\<close>

theorem unterminated_literal_keeps_position:
  "match_literal (GrammarParser\<lparr>error_policy := Some [],
       position := [CHR 0x27] @ ''x'' @ [CHR 0x0A] @ '';''\<rparr>) =
     Some (False, GrammarParser\<lparr>error_policy :=
                     Some [Report 1 0 LALR_ERROR_UNTERMINATED_LITERAL ''unterminated literal''],
                   position := ''x'' @ [CHR 0x0A] @ '';'', errors := 1\<rparr>)
   \<and> match_identifier (GrammarParser\<lparr>error_policy :=
                     Some [Report 1 0 LALR_ERROR_UNTERMINATED_LITERAL ''unterminated literal''],
                   position := ''x'' @ [CHR 0x0A] @ '';'', errors := 1\<rparr>) =
     Some (True, GrammarParser\<lparr>error_policy :=
                     Some [Report 1 0 LALR_ERROR_UNTERMINATED_LITERAL ''unterminated literal''],
                   position := [CHR 0x0A] @ '';'', lexeme := ''x'', errors := 1\<rparr>)
   \<and> outcome (parse GrammarParser
         (''G { a : '' @ [CHR 0x27] @ ''x y'' @ [CHR 0x0A] @ [CHR 0x27] @ '' ; }'') (Some []) []) =
     Some (4,
       [Grammar ''G'', Production ''a'' 1, Identifier ''x'' 1, Identifier ''y'' 1,
        Literal '' ; }'' 2, EndExpression 2, EndProduction],
       Some [Report 1 0 LALR_ERROR_UNTERMINATED_LITERAL ''unterminated literal'',
             Report 2 0 LALR_ERROR_SYNTAX (expected_not_found [CHR 0x27]),
             Report 2 0 LALR_ERROR_SYNTAX (expected_not_found '';''),
             Report 2 0 LALR_ERROR_SYNTAX (expected_not_found ''}'')])"
  by code_simp

subsection \<open>C3: the shape of an identifier\<close>

text \<open>
  C3. \<open>match_identifier\<close> tests the first character with \<open>isalnum\<close>, so a digit starts
  an identifier: on \<open>9abc def\<close> it matches \<open>9abc\<close>, and \<open>9a { 7 : 8 ; }\<close> parses without
  an error as a grammar \<open>9a\<close> with a production \<open>7\<close>.
\<close>

theorem match_identifier_digit_first:
  "match_identifier (GrammarParser\<lparr>position := ''9abc def''\<rparr>) =
     Some (True, GrammarParser\<lparr>position := '' def'', lexeme := ''9abc''\<rparr>)
   \<and> outcome (parse GrammarParser ''9a { 7 : 8 ; }'' (Some []) []) =
     Some (0, [Grammar ''9a'', Production ''7'' 1, Identifier ''8'' 1, EndExpression 1,
               EndProduction], Some [])"
  by code_simp

subsection \<open>C4: a literal may not span lines\<close>

text \<open>
  C4. When \<open>match_literal\<close> has opened a literal (after whitespace and comments the input
  is a quote) and the scan reaches a newline character (LF or CR) before a closing quote,
  that is before a quote that the character in front of it does not escape, it reports
  \<open>LALR_ERROR_UNTERMINATED_LITERAL\<close> at the current line, counts one error and returns
  false. The body may hold escaped quotes; the pointer stays after the opening quote.
\<close>

theorem match_literal_newline:
  assumes "match_whitespace_and_comments s = Some s0"
    and "position s0 = CHR 0x27 # body @ nl # tail"
    and "is_newline nl"
    and "\<forall>i<length body. \<not> is_newline (body ! i)"
    and "\<forall>i<length body. body ! i = CHR 0x27 \<longrightarrow> 0 < i \<and> body ! (i - 1) = CHR 0x5C"
  shows "match_literal s =
     Some (False, error (line s0) 0 LALR_ERROR_UNTERMINATED_LITERAL ''unterminated literal''
             (s0\<lparr>position := body @ nl # tail\<rparr>))"
proof -
  have w0: "match_whitespace_and_comments s0 = Some s0"
    using assms(2) by (simp add: match_whitespace_and_comments_token)
  have m: "match [CHR 0x27] s0 = Some (True, s0\<lparr>position := body @ nl # tail\<rparr>)"
    using assms(2) by (simp add: match_def w0 match_without_skipping_whitespace_def)
  have "\<forall>i<length body. body ! i = CHR 0x27 \<longrightarrow>
       (if i = 0 then False else body ! (i - 1) = CHR 0x5C)"
    using assms(5) by auto
  with assms(3,4) have l: "literal_loop (body @ nl # tail) False = nl # tail"
    by (simp add: literal_loop_body)
  show ?thesis
    using assms(3) by (simp add: match_literal_def assms(1) m l)
qed

theorem match_literal_newline_witness:
  "match_literal (GrammarParser\<lparr>error_policy := Some [],
       position := '' '' @ [CHR 0x27] @ ''x y'' @ [CHR 0x0A] @ [CHR 0x27] @ '' ;''\<rparr>)
     = Some (False, GrammarParser\<lparr>error_policy :=
                 Some [Report 1 0 LALR_ERROR_UNTERMINATED_LITERAL ''unterminated literal''],
               position := ''x y'' @ [CHR 0x0A] @ [CHR 0x27] @ '' ;'', errors := 1\<rparr>)
   \<and> map report_code (reported (parse GrammarParser
         (''G { a : '' @ [CHR 0x27] @ ''x y'' @ [CHR 0x0A] @ [CHR 0x27] @ '' ; }'') (Some []) [])) =
       [LALR_ERROR_UNTERMINATED_LITERAL, LALR_ERROR_SYNTAX, LALR_ERROR_SYNTAX, LALR_ERROR_SYNTAX]"
proof -
  have whole: "map report_code (reported (parse GrammarParser
         (''G { a : '' @ [CHR 0x27] @ ''x y'' @ [CHR 0x0A] @ [CHR 0x27] @ '' ; }'') (Some []) [])) =
       [LALR_ERROR_UNTERMINATED_LITERAL, LALR_ERROR_SYNTAX, LALR_ERROR_SYNTAX, LALR_ERROR_SYNTAX]"
    by code_simp
  have 1: "match_whitespace_and_comments
        (GrammarParser\<lparr>error_policy := Some [],
           position := '' '' @ [CHR 0x27] @ ''x y'' @ [CHR 0x0A] @ [CHR 0x27] @ '' ;''\<rparr>)
      = Some (GrammarParser\<lparr>error_policy := Some [],
           position := [CHR 0x27] @ ''x y'' @ [CHR 0x0A] @ [CHR 0x27] @ '' ;''\<rparr>)"
    by code_simp
  have 2: "position (GrammarParser\<lparr>error_policy := Some [],
           position := [CHR 0x27] @ ''x y'' @ [CHR 0x0A] @ [CHR 0x27] @ '' ;''\<rparr>)
      = CHR 0x27 # ''x y'' @ CHR 0x0A # ([CHR 0x27] @ '' ;'')"
    by simp
  have 3: "is_newline (CHR 0x0A)" by (simp add: is_newline_def)
  have 4: "\<forall>i<length ''x y''. \<not> is_newline (''x y'' ! i)"
    by (simp add: nth_Cons' less_Suc_eq is_newline_def)
  have 5: "\<forall>i<length ''x y''. ''x y'' ! i = CHR 0x27 \<longrightarrow> 0 < i \<and> ''x y'' ! (i - 1) = CHR 0x5C"
    by (simp add: nth_Cons' less_Suc_eq)
  show ?thesis
    using match_literal_newline [OF 1 2 3 4 5] whole by (simp add: error_def GrammarParser_def increment_def)
qed

subsection \<open>C5: block comments whose body ends in a star\<close>

text \<open>
  C5. On a star \<open>match_block_comment\<close> moves the pointer twice, so in \<open>**/\<close> the second
  star is skipped untested and the end of the comment is missed: after \<open>/***/\<close> the scan
  runs on to the end of the input, where after \<open>/**/\<close> it stops behind the comment. The
  grammar \<open>G /***/ { }\<close> ends with two syntax errors, \<open>G /**/ { }\<close> with none.
\<close>

theorem match_block_comment_stars:
  "match_block_comment (GrammarParser\<lparr>position := ''/***/ { }''\<rparr>) =
     Some (True, GrammarParser\<lparr>position := []\<rparr>)
   \<and> match_block_comment (GrammarParser\<lparr>position := ''/**/ { }''\<rparr>) =
     Some (True, GrammarParser\<lparr>position := '' { }''\<rparr>)
   \<and> outcome (parse GrammarParser ''G /***/ { }'' (Some []) []) =
     Some (2, [Grammar ''G''],
       Some [Report 1 0 LALR_ERROR_SYNTAX (expected_not_found ''{''),
             Report 1 0 LALR_ERROR_SYNTAX (expected_not_found ''}'')])
   \<and> outcome (parse GrammarParser ''G /**/ { }'' (Some []) []) = Some (0, [Grammar ''G''], Some [])"
  by code_simp

subsection \<open>C6: what the generation of the arithmetic grammar reports\<close>




text \<open>
  The model counts conflicts that precedence does not resolve: the grammar of scenario 2
  has one, on \<open>else\<close>, and keeps the shift.
\<close>

lemma scenario_2_evaluated:
  "map_option (\<lambda>r. (generation_errors r, generation_conflicts r, generation_reports r))
     (generate_from_source wide_limits quiet_lexical_builder scenario_2) =
   Some (0, 1, [Parse_table_conflict \<lparr>conflict_state = 7, conflict_terminal = 7,
                   conflict_kept = Shift 8, conflict_other = Reduce 1\<rparr>])"
  by code_simp




subsection \<open>C7: parsing is deterministic\<close>

text \<open>
  C7. Two calls of \<open>parse\<close> over the same characters, with equal collaborators, return
  the same error count and make the same calls on the grammar builder and on the error
  policy, whatever the two parser objects held before: \<open>parse\<close> sets the position, the
  line and the error count at entry, and the lexeme left by an earlier call is
  overwritten before it is read. (Where the scan of a block comment leaves the range,
  both calls do.)
\<close>

theorem parse_deterministic:
  "outcome (parse p1 start_finish policy builder) = outcome (parse p2 start_finish policy builder)"
  by (rule parse_any_parser)

theorem parse_deterministic_witness:
  "outcome (parse GrammarParser ''G { a : b ; }'' (Some []) []) =
     outcome (parse (GrammarParser\<lparr>position := ''rest'', lexeme := ''old'', line := 7, errors := 2\<rparr>)
        ''G { a : b ; }'' (Some []) [])
   \<and> outcome (parse GrammarParser ''G { a : b ; }'' (Some []) []) =
       Some (0, [Grammar ''G'', Production ''a'' 1, Identifier ''b'' 1, EndExpression 1,
                 EndProduction], Some [])"
proof -
  have "outcome (parse GrammarParser ''G { a : b ; }'' (Some []) []) =
       Some (0, [Grammar ''G'', Production ''a'' 1, Identifier ''b'' 1, EndExpression 1,
                 EndProduction], Some [])"
    by code_simp
  then show ?thesis
    using parse_deterministic [of GrammarParser "''G { a : b ; }''" "Some []" "[]"
        "GrammarParser\<lparr>position := ''rest'', lexeme := ''old'', line := 7, errors := 2\<rparr>"]
    by simp
qed

subsection \<open>C8: a regular expression may span lines\<close>

text \<open>
  C8. When the input, after whitespace and comments, is a double quote, a body and the
  closing double quote (the first one that no backslash in front of it escapes), then
  \<open>match_regex\<close> returns true, the lexeme is the whole body and the pointer stands after
  the closing quote, whatever characters the body holds: newline characters do not stop
  the scan (and do not count lines).
\<close>

theorem match_regex_spans_lines:
  assumes "match_whitespace_and_comments s = Some s0"
    and "position s0 = CHR 0x22 # body @ CHR 0x22 # tail"
    and "\<forall>i<length body. body ! i = CHR 0x22 \<longrightarrow> 0 < i \<and> body ! (i - 1) = CHR 0x5C"
    and "body \<noteq> [] \<longrightarrow> last body \<noteq> CHR 0x5C"
  shows "match_regex s = Some (True, s0\<lparr>lexeme := body, position := tail\<rparr>)"
proof -
  have w0: "match_whitespace_and_comments s0 = Some s0"
    using assms(2) by (simp add: match_whitespace_and_comments_token)
  have m: "match [CHR 0x22] s0 = Some (True, s0\<lparr>position := body @ CHR 0x22 # tail\<rparr>)"
    using assms(2) by (simp add: match_def w0 match_without_skipping_whitespace_def)
  have "\<forall>i<length body. body ! i = CHR 0x22 \<longrightarrow>
       (if i = 0 then False else body ! (i - 1) = CHR 0x5C)"
    using assms(3) by auto
  then have l: "regex_loop (body @ CHR 0x22 # tail) False = CHR 0x22 # tail"
    using assms(4) by (simp add: regex_loop_body)
  have b: "between (body @ CHR 0x22 # tail) (CHR 0x22 # tail) = body"
    by (simp add: between_def)
  have e: "expect [CHR 0x22] (s0\<lparr>lexeme := body, position := CHR 0x22 # tail\<rparr>)
      = Some (True, s0\<lparr>lexeme := body, position := tail\<rparr>)"
    by (simp add: expect_def match_def match_whitespace_and_comments_token
        match_without_skipping_whitespace_def)
  show ?thesis
    by (simp add: match_regex_def assms(1) m l b e)
qed

theorem match_regex_spans_lines_witness:
  "match_regex (GrammarParser\<lparr>position := '' '' @ [CHR 0x22] @ ''a'' @ [CHR 0x0A] @ ''b'' @ [CHR 0x22] @ '';''\<rparr>)
     = Some (True, GrammarParser\<lparr>lexeme := ''a'' @ [CHR 0x0A] @ ''b'', position := '';''\<rparr>)
   \<and> outcome (parse GrammarParser
         (''G { %whitespace '' @ [CHR 0x22] @ ''a'' @ [CHR 0x0A] @ ''b'' @ [CHR 0x22] @ '' ; }'')
         (Some []) []) =
       Some (0, [Grammar ''G'', Whitespace, Regex (''a'' @ [CHR 0x0A] @ ''b'') 1], Some [])"
proof -
  have whole: "outcome (parse GrammarParser
         (''G { %whitespace '' @ [CHR 0x22] @ ''a'' @ [CHR 0x0A] @ ''b'' @ [CHR 0x22] @ '' ; }'')
         (Some []) []) =
       Some (0, [Grammar ''G'', Whitespace, Regex (''a'' @ [CHR 0x0A] @ ''b'') 1], Some [])"
    by code_simp
  have 1: "match_whitespace_and_comments
        (GrammarParser\<lparr>position := '' '' @ [CHR 0x22] @ ''a'' @ [CHR 0x0A] @ ''b'' @ [CHR 0x22] @ '';''\<rparr>)
      = Some (GrammarParser\<lparr>position := [CHR 0x22] @ ''a'' @ [CHR 0x0A] @ ''b'' @ [CHR 0x22] @ '';''\<rparr>)"
    by code_simp
  have 2: "position (GrammarParser\<lparr>position := [CHR 0x22] @ ''a'' @ [CHR 0x0A] @ ''b'' @ [CHR 0x22] @ '';''\<rparr>)
      = CHR 0x22 # (''a'' @ [CHR 0x0A] @ ''b'') @ CHR 0x22 # '';''"
    by simp
  have 3: "\<forall>i<length (''a'' @ [CHR 0x0A] @ ''b'').
      (''a'' @ [CHR 0x0A] @ ''b'') ! i = CHR 0x22 \<longrightarrow>
        0 < i \<and> (''a'' @ [CHR 0x0A] @ ''b'') ! (i - 1) = CHR 0x5C"
    by (simp add: nth_Cons' less_Suc_eq)
  have 4: "''a'' @ [CHR 0x0A] @ ''b'' \<noteq> [] \<longrightarrow> last (''a'' @ [CHR 0x0A] @ ''b'') \<noteq> CHR 0x5C"
    by simp
  show ?thesis
    using match_regex_spans_lines [OF 1 2 3 4] whole by simp
qed

subsection \<open>C9: the dot of an item stays inside the production\<close>

text \<open>
  C9. An item that the constructor \<open>Item( production, position )\<close> has built (both
  assertions passed) has a production, the one given, and \<open>0 \<le> position \<le> length\<close> of
  that production; no operation on the item changes production or position, so the
  invariant holds after any sequence of operations.
\<close>

theorem Item_invariant:
  assumes "Item production_arg position_arg = Inr it"
  shows "item_production it = production_arg \<and> item_position it = position_arg \<and>
    production_arg \<noteq> None \<and>
    0 \<le> item_position it \<and> item_position it \<le> production_length (the (item_production it)) \<and>
    item_invariant (foldl (\<lambda>i operation. run operation i) it operations)"
proof -
  have keep: "item_production (foldl (\<lambda>i operation. run operation i) i0 operations) = item_production i0 \<and>
      item_position (foldl (\<lambda>i operation. run operation i) i0 operations) = item_position i0" for i0
    by (induction operations arbitrary: i0) (simp_all add: run_fields)
  from assms obtain p where p: "production_arg = Some p"
    and r: "0 \<le> position_arg" "position_arg < production_length p + 1"
    and it: "it = \<lparr>item_production = Some p, item_position = position_arg,
                     item_lookahead_symbols = {||}\<rparr>"
    by (auto simp: Item_def split: option.splits if_splits)
  with keep [of it] show ?thesis
    by (simp add: item_invariant_def)
qed

theorem Item_invariant_witness:
  "Item (Some \<lparr>production_head = 0, production_body = [1, 2, 3],
        production_precedence_symbol = None, production_action_identifier = None,
        production_index = 0\<rparr>) 3 =
     Inr \<lparr>item_production = Some \<lparr>production_head = 0, production_body = [1, 2, 3],
        production_precedence_symbol = None, production_action_identifier = None,
        production_index = 0\<rparr>, item_position = 3, item_lookahead_symbols = {||}\<rparr>
   \<and> item_invariant (foldl (\<lambda>i operation. run operation i)
       \<lparr>item_production = Some \<lparr>production_head = 0, production_body = [1, 2, 3],
        production_precedence_symbol = None, production_action_identifier = None,
        production_index = 0\<rparr>, item_position = 3, item_lookahead_symbols = {||}\<rparr>
       [Add_lookahead_symbols {|4, 5|}, Dot_at_end, Add_lookahead_symbols {|5, 6|}])
   \<and> Item (Some \<lparr>production_head = 0, production_body = [1, 2, 3],
        production_precedence_symbol = None, production_action_identifier = None,
        production_index = 0\<rparr>) 4 = Inl Assertion_failed"
proof -
  have 1: "Item (Some \<lparr>production_head = 0, production_body = [1, 2, 3],
        production_precedence_symbol = None, production_action_identifier = None,
        production_index = 0\<rparr>) 3 =
     Inr \<lparr>item_production = Some \<lparr>production_head = 0, production_body = [1, 2, 3],
        production_precedence_symbol = None, production_action_identifier = None,
        production_index = 0\<rparr>, item_position = 3, item_lookahead_symbols = {||}\<rparr>"
    by (simp add: Item_def production_length_def)
  have 2: "Item (Some \<lparr>production_head = 0, production_body = [1, 2, 3],
        production_precedence_symbol = None, production_action_identifier = None,
        production_index = 0\<rparr>) 4 = Inl Assertion_failed"
    by (simp add: Item_def production_length_def)
  show ?thesis
    using Item_invariant [OF 1, of "[Add_lookahead_symbols {|4, 5|}, Dot_at_end, Add_lookahead_symbols {|5, 6|}]"] 1 2
    by simp
qed

subsection \<open>C10: adding lookahead symbols\<close>

text \<open>
  C10. After \<open>add_lookahead_symbols\<close> the lookahead set of the item is the union of what
  it was and the argument, so nothing is removed; the value returned is the number of
  symbols of the argument that were not in the set before; a second call with the same
  argument returns 0. Production and position stay as they are.
\<close>

theorem add_lookahead_symbols_grows:
  "item_lookahead_symbols (snd (add_lookahead_symbols S it)) = item_lookahead_symbols it |\<union>| S \<and>
   item_lookahead_symbols it |\<subseteq>| item_lookahead_symbols (snd (add_lookahead_symbols S it)) \<and>
   fst (add_lookahead_symbols S it) = int (fcard (S |-| item_lookahead_symbols it)) \<and>
   fst (add_lookahead_symbols S (snd (add_lookahead_symbols S it))) = 0 \<and>
   item_production (snd (add_lookahead_symbols S it)) = item_production it \<and>
   item_position (snd (add_lookahead_symbols S it)) = item_position it"
  by (simp add: add_lookahead_symbols_def Let_def fcard_funion_growth)

theorem add_lookahead_symbols_grows_witness:
  "fst (add_lookahead_symbols {|20, 30|}
     \<lparr>item_production = None, item_position = 0, item_lookahead_symbols = {|10, 20|}\<rparr>) = 1
   \<and> item_lookahead_symbols (snd (add_lookahead_symbols {|20, 30|}
     \<lparr>item_production = None, item_position = 0, item_lookahead_symbols = {|10, 20|}\<rparr>))
       = {|10, 20, 30|}
   \<and> fst (add_lookahead_symbols {|20, 30|} (snd (add_lookahead_symbols {|20, 30|}
      \<lparr>item_production = None, item_position = 0, item_lookahead_symbols = {|10, 20|}\<rparr>))) = 0"
proof -
  have 1: "fcard ({|20, 30|} |-| {|10, 20::nat|}) = 1" by code_simp
  have 2: "{|10, 20|} |\<union>| {|20, 30|} = {|10, 20, 30::nat|}" by auto
  from add_lookahead_symbols_grows [of "{|20, 30|}"
      "\<lparr>item_production = None, item_position = 0, item_lookahead_symbols = {|10, 20|}\<rparr>"]
  show ?thesis
    unfolding 1 2 item.simps by simp
qed

end
